theory Spec2Isabelle
  imports Complex_Main "HOL-Library.Word" "HOL-Library.Sublist" "HOL-Library.Log_Nat"
begin

section \<open>Values of the script: errors, bytes and hexadecimal strings\<close>

text \<open>
  An f-string of the script is kept as the list of its parts, so that an error message or a
  printed line is the template of the source with the interpolated values in place.
\<close>

datatype fpart = S string | I int | R rat | B bool | L "string list"

type_synonym fstring = "fpart list"

text \<open>
  The exceptions that can end a run. \<open>Exception\<close> is what the script raises itself with
  \<^verbatim>\<open>raise Exception(...)\<close>, \<open>AssertionError\<close> comes from its \<^verbatim>\<open>assert\<close> statements; the others
  are raised by the Python runtime (indexing a list or a dict, \<^verbatim>\<open>int()\<close>, \<^verbatim>\<open>bytes.fromhex\<close>, true
  division, \<^verbatim>\<open>open\<close>) or by the \<^verbatim>\<open>thor_devkit\<close> library.
\<close>

datatype error =
    Exception fstring
  | AssertionError string
  | IndexError
  | ValueError
  | OverflowError
  | ZeroDivisionError
  | KeyError
  | FileNotFoundError
  | DevkitError string

type_synonym byte = "8 word"

definition is_space :: "char \<Rightarrow> bool" where
  "is_space c = (c \<in> set [CHR '' '', CHR 0x09, CHR 0x0A, CHR 0x0B, CHR 0x0C, CHR 0x0D])"

definition hex_val :: "char \<Rightarrow> nat option" where
  "hex_val c =
     (let n = (of_char c :: nat)
      in if 48 \<le> n \<and> n \<le> 57 then Some (n - 48)
         else if 97 \<le> n \<and> n \<le> 102 then Some (n - 87)
         else if 65 \<le> n \<and> n \<le> 70 then Some (n - 55)
         else None)"

definition hex_char :: "nat \<Rightarrow> char" where
  "hex_char n = ''0123456789abcdef'' ! (n mod 16)"

text \<open>\<^verbatim>\<open>bytes.hex()\<close>: two lower-case digits for each byte.\<close>

definition hex :: "byte list \<Rightarrow> string" where
  "hex bs = concat (map (\<lambda>b. [hex_char (unat b div 16), hex_char (unat b mod 16)]) bs)"

text \<open>
  \<^verbatim>\<open>bytes.fromhex(s)\<close>: ASCII whitespace is skipped before each pair of digits; a pair that
  is incomplete or holds a character that is no hexadecimal digit raises \<^verbatim>\<open>ValueError\<close>.
\<close>

fun fromhex :: "string \<Rightarrow> error + byte list" where
  "fromhex [] = Inr []"
| "fromhex [c] = (if is_space c then Inr [] else Inl ValueError)"
| "fromhex (c # d # ds) =
     (if is_space c then fromhex (d # ds)
      else (case (hex_val c, hex_val d) of
              (Some h, Some l) \<Rightarrow>
                (case fromhex ds of
                   Inl e \<Rightarrow> Inl e
                 | Inr bs \<Rightarrow> Inr (of_nat (16 * h + l) # bs))
            | _ \<Rightarrow> Inl ValueError))"

section \<open>Chain data: blocks, receipts and contract artifacts\<close>

record block =
  block_id :: string
  block_number :: int

record tx_output =
  contractAddress :: "string option"

record receipt =
  reverted :: bool
  outputs :: "tx_output list"

record abi_entry =
  name :: "string option"
  entry_type :: string
  inputs :: "string list"

record contract_meta =
  contractName :: string
  bytecode :: string
  abi :: "abi_entry list"

text \<open>\<^verbatim>\<open>get_bytecode(contract_meta)\<close> with the default key \<^verbatim>\<open>'bytecode'\<close>.\<close>

definition get_bytecode :: "contract_meta \<Rightarrow> error + byte list" where
  "get_bytecode contract_meta = fromhex (bytecode contract_meta)"

text \<open>\<^verbatim>\<open>_calc_blockRef(block)\<close>: the slice \<^verbatim>\<open>block['id'][0:18]\<close>.\<close>

definition calc_blockRef :: "block \<Rightarrow> string" where
  "calc_blockRef blk = take 18 (block_id blk)"

text \<open>\<^verbatim>\<open>is_reverted(receipt)\<close>.\<close>

definition is_reverted :: "receipt \<Rightarrow> bool" where
  "is_reverted r = reverted r"

text \<open>
  \<^verbatim>\<open>_find_created_contracts(receipt)\<close>: the loop appends \<^verbatim>\<open>x.get('contractAddress')\<close> when it is
  truthy, that is present, not null and not the empty string.
\<close>

fun find_created_loop :: "tx_output list \<Rightarrow> string list \<Rightarrow> string list" where
  "find_created_loop [] a = a"
| "find_created_loop (x # xs) a =
     (case contractAddress x of
        None \<Rightarrow> find_created_loop xs a
      | Some addr \<Rightarrow>
          if addr \<noteq> [] then find_created_loop xs (a @ [addr]) else find_created_loop xs a)"

definition find_created_contracts :: "receipt \<Rightarrow> string list" where
  "find_created_contracts r = find_created_loop (outputs r) []"

text \<open>
  \<^verbatim>\<open>find_func_abi(contract_meta, func_name)\<close>: the loop returns at the first entry whose
  \<^verbatim>\<open>each.get('name')\<close> equals the name; falling off the end of the function returns \<^verbatim>\<open>None\<close>.
\<close>

fun find_func_abi_loop :: "abi_entry list \<Rightarrow> string \<Rightarrow> abi_entry option" where
  "find_func_abi_loop [] func_name = None"
| "find_func_abi_loop (each # abis) func_name =
     (if name each = Some func_name then Some each else find_func_abi_loop abis func_name)"

definition find_func_abi :: "contract_meta \<Rightarrow> string \<Rightarrow> abi_entry option" where
  "find_func_abi contract_meta func_name = find_func_abi_loop (abi contract_meta) func_name"


section \<open>Numbers: \<^verbatim>\<open>int(s, 16)\<close> and true division\<close>

text \<open>
  \<^verbatim>\<open>int(s, 16)\<close> on a string of ASCII characters, as \<^verbatim>\<open>PyLong_FromString\<close> reads it: leading
  whitespace, an optional sign, an optional prefix \<^verbatim>\<open>0x\<close> or \<^verbatim>\<open>0X\<close> that one underscore may
  follow, then the digits, and trailing whitespace. Single underscores may stand between
  digits; the number may not begin or end with an underscore nor hold two in a row, and it
  needs at least one digit. Everything else is a \<^verbatim>\<open>ValueError\<close>.

  \<open>digits_val\<close> is the loop over the digits: it stops at the first character that is
  neither a digit nor an underscore and returns the value with what is left; \<open>prev\<close> says
  that the character before was an underscore.
\<close>

fun digits_val :: "string \<Rightarrow> int \<Rightarrow> bool \<Rightarrow> (int \<times> string) option" where
  "digits_val [] acc prev = (if prev then None else Some (acc, []))"
| "digits_val (c # cs) acc prev =
     (if c = CHR ''_'' then (if prev then None else digits_val cs acc True)
      else (case hex_val c of
              Some d \<Rightarrow> digits_val cs (16 * acc + int d) False
            | None \<Rightarrow> if prev then None else Some (acc, c # cs)))"

definition int16 :: "string \<Rightarrow> error + int" where
  "int16 s =
     (let s1 = dropWhile is_space s;
          (sign, s2) = (case s1 of
                          c # r \<Rightarrow> if c = CHR ''+'' then (1, r) else if c = CHR ''-'' then (- 1, r) else (1, s1)
                        | [] \<Rightarrow> (1, s1));
          s3 = (if take 2 s2 = ''0x'' \<or> take 2 s2 = ''0X''
                then (case drop 2 s2 of c # r \<Rightarrow> if c = CHR ''_'' then r else c # r | [] \<Rightarrow> [])
                else s2)
      in case s3 of
           [] \<Rightarrow> Inl ValueError
         | c # _ \<Rightarrow>
             if hex_val c = None then Inl ValueError
             else (case digits_val s3 0 False of
                     None \<Rightarrow> Inl ValueError
                   | Some (n, rest) \<Rightarrow>
                       if dropWhile is_space rest = [] then Inr (sign * n) else Inl ValueError))"

text \<open>
  \<^verbatim>\<open>a / b\<close> on two Python integers is the IEEE binary64 number nearest to the exact quotient
  (ties to the even significand), \<^verbatim>\<open>OverflowError\<close> when that is out of range and
  \<^verbatim>\<open>ZeroDivisionError\<close> for \<^verbatim>\<open>b = 0\<close>. The float is represented by the rational it denotes.
\<close>

definition round_half_even :: "rat \<Rightarrow> int" where
  "round_half_even x =
     (let f = \<lfloor>x\<rfloor>; r = x - of_int f
      in if r < 1 / 2 then f else if 1 / 2 < r then f + 1 else if even f then f else f + 1)"

definition scale2 :: "rat \<Rightarrow> int \<Rightarrow> rat" where
  "scale2 x k = (if 0 \<le> k then x * 2 ^ nat k else x / 2 ^ nat (- k))"

text \<open>The exponent \<open>e\<close> with \<open>2^e \<le> x < 2^(e+1)\<close>, for a positive \<open>x\<close>.\<close>

definition ilog2 :: "rat \<Rightarrow> int" where
  "ilog2 x =
     (let (p, q) = quotient_of x; d = bitlen p - bitlen q
      in if scale2 1 d \<le> x then d else d - 1)"

definition round_binary64 :: "rat \<Rightarrow> error + rat" where
  "round_binary64 x =
     (if x = 0 then Inr 0
      else (let a = \<bar>x\<bar>;
                e = max (ilog2 a) (- 1022);
                m = round_half_even (scale2 a (52 - e));
                r = scale2 (of_int m) (e - 52)
            in if of_int (2 ^ 1024) \<le> r then Inl OverflowError else Inr (sgn x * r)))"

definition truediv :: "int \<Rightarrow> int \<Rightarrow> error + rat" where
  "truediv a b = (if b = 0 then Inl ZeroDivisionError else round_binary64 (of_int a / of_int b))"

section \<open>The world outside the script\<close>

text \<open>
  The node, the operating system's random source, the files on disk, the clock and the
  terminal are the world the script acts on. The node answers the \<open>i\<close>-th request to an
  endpoint with the \<open>i\<close>-th element of that endpoint's sequence of responses; a counter per
  endpoint records how many requests have been made, and \<open>requests\<close> records them in order.
\<close>

datatype 'a response = Response (status_code: int) (resp_text: string) (json: 'a)

datatype request = GET string | POST string string

record account =
  balance :: string
  energy :: string
  hasCode :: bool

record world =
  blocks :: "nat \<Rightarrow> block response"
  accounts :: "nat \<Rightarrow> account response"
  posts :: "nat \<Rightarrow> string response"
  receipts :: "nat \<Rightarrow> receipt option response"
  entropy :: "nat \<Rightarrow> byte"
  files :: "string \<Rightarrow> contract_meta option"
  n_blocks :: nat
  n_accounts :: nat
  n_posts :: nat
  n_receipts :: nat
  n_entropy :: nat
  requests :: "request list"
  slept :: nat
  stdout :: "fstring list"

text \<open>
  A statement of the script is a function from the world to a result and the new world;
  an exception is the result \<open>Inl\<close>, and \<open>bindE\<close> skips what follows it.
\<close>

type_synonym 'a io = "world \<Rightarrow> (error + 'a) \<times> world"

definition retE :: "'a \<Rightarrow> 'a io" where
  "retE x w = (Inr x, w)"

definition raiseE :: "error \<Rightarrow> 'a io" where
  "raiseE e w = (Inl e, w)"

definition liftE :: "error + 'a \<Rightarrow> 'a io" where
  "liftE r w = (r, w)"

definition bindE :: "'a io \<Rightarrow> ('a \<Rightarrow> 'b io) \<Rightarrow> 'b io" where
  "bindE m f w = (case m w of (Inl e, w') \<Rightarrow> (Inl e, w') | (Inr x, w') \<Rightarrow> f x w')"

definition print :: "fstring \<Rightarrow> unit io" where
  "print line w = (Inr (), w\<lparr>stdout := stdout w @ [line]\<rparr>)"

definition sleep :: "nat \<Rightarrow> unit io" where
  "sleep secs w = (Inr (), w\<lparr>slept := slept w + secs\<rparr>)"

text \<open>\<^verbatim>\<open>requests.get\<close> and \<^verbatim>\<open>requests.post\<close>, one per endpoint of the node.\<close>

definition get_blocks :: "string \<Rightarrow> block response io" where
  "get_blocks url w =
     (Inr (blocks w (n_blocks w)),
      w\<lparr>n_blocks := Suc (n_blocks w), requests := requests w @ [GET url]\<rparr>)"

definition get_accounts :: "string \<Rightarrow> account response io" where
  "get_accounts url w =
     (Inr (accounts w (n_accounts w)),
      w\<lparr>n_accounts := Suc (n_accounts w), requests := requests w @ [GET url]\<rparr>)"

definition post_transactions :: "string \<Rightarrow> string \<Rightarrow> string response io" where
  "post_transactions url raw w =
     (Inr (posts w (n_posts w)),
      w\<lparr>n_posts := Suc (n_posts w), requests := requests w @ [POST url raw]\<rparr>)"

definition get_receipt :: "string \<Rightarrow> receipt option response io" where
  "get_receipt url w =
     (Inr (receipts w (n_receipts w)),
      w\<lparr>n_receipts := Suc (n_receipts w), requests := requests w @ [GET url]\<rparr>)"

text \<open>\<^verbatim>\<open>secrets.token_hex(n)\<close>: the next \<open>n\<close> bytes of the random source, in hexadecimal.\<close>

definition token_hex :: "nat \<Rightarrow> string io" where
  "token_hex n w =
     (Inr (hex (map (entropy w) [n_entropy w ..< n_entropy w + n])),
      w\<lparr>n_entropy := n_entropy w + n\<rparr>)"

text \<open>\<^verbatim>\<open>read_json_file(path_like)\<close>.\<close>

definition read_json_file :: "string \<Rightarrow> contract_meta io" where
  "read_json_file path_like w =
     (case files w path_like of None \<Rightarrow> (Inl FileNotFoundError, w) | Some meta \<Rightarrow> (Inr meta, w))"

text \<open>
  The functions of \<^verbatim>\<open>thor_devkit\<close> that the script calls are parameters of the model: key
  derivation, ABI encoding, and the validation, signing and encoding of a transaction. Each
  may raise.
\<close>

record clause =
  clause_to :: "string option"
  clause_value :: int
  clause_data :: string

record body =
  chainTag :: int
  blockRef :: string
  expiration :: int
  clauses :: "clause list"
  gasPriceCoef :: int
  gas :: int
  dependsOn :: "string option"
  nonce :: int

record devkit =
  derive_address :: "byte list \<Rightarrow> error + byte list"
  encode_list :: "string list \<Rightarrow> string list option \<Rightarrow> error + byte list"
  abi_FUNCTION :: "abi_entry \<Rightarrow> error + abi_entry"
  function_encode :: "abi_entry \<Rightarrow> string list \<Rightarrow> error + string"
  Transaction :: "body \<Rightarrow> error + body"
  sign_encode :: "body \<Rightarrow> byte list \<Rightarrow> error + byte list"


section \<open>The functions of \<^verbatim>\<open>deploy.py\<close>\<close>

definition TARGETS_vvet :: string where
  "TARGETS_vvet = ''vvet/build/contracts/VVET9.json''"

definition TARGETS_factory :: string where
  "TARGETS_factory = ''core/build/contracts/UniswapV2Factory.json''"

definition TARGETS_router :: string where
  "TARGETS_router = ''periphery/build/contracts/UniswapV2Router02.json''"

definition VTHO_CONTRACT :: string where
  "VTHO_CONTRACT = ''0x0000000000000000000000000000456e65726779''"

definition build_params :: "devkit \<Rightarrow> string list \<Rightarrow> string list option \<Rightarrow> error + byte list" where
  "build_params D types args = encode_list D types args"

text \<open>\<^verbatim>\<open>_build_url(base, tail)\<close>: \<^verbatim>\<open>base.rstrip('/') + '/' + tail.lstrip('/')\<close>.\<close>

definition build_url :: "string \<Rightarrow> string \<Rightarrow> string" where
  "build_url base tail =
     rev (dropWhile (\<lambda>c. c = CHR ''/'') (rev base)) @ ''/'' @ dropWhile (\<lambda>c. c = CHR ''/'') tail"

definition get_block :: "string \<Rightarrow> string \<Rightarrow> block io" where
  "get_block network id_or_number =
     (let url = build_url network (''blocks/'' @ id_or_number)
      in bindE (get_blocks url) (\<lambda>r.
           if \<not> (status_code r = 200)
           then raiseE (Exception [S ''Cant connect to '', S url, S '', error '', S (resp_text r)])
           else retE (json r)))"

definition best_block :: "string \<Rightarrow> block io" where
  "best_block network = get_block network ''best''"

definition get_account :: "string \<Rightarrow> string \<Rightarrow> string \<Rightarrow> account io" where
  "get_account network account_id blk =
     (let url = build_url network (''/accounts/'' @ account_id @ ''?revision='' @ blk)
      in bindE (get_accounts url) (\<lambda>r.
           if \<not> (status_code r = 200)
           then raiseE (Exception [S ''Cant connect to '', S url, S '', error '', S (resp_text r)])
           else retE (json r)))"

text \<open>\<^verbatim>\<open>_calc_nonce()\<close>: \<^verbatim>\<open>int(secrets.token_hex(8), 16)\<close>.\<close>

definition calc_nonce :: "int io" where
  "calc_nonce = bindE (token_hex 8) (\<lambda>h. liftE (int16 h))"

definition calc_address :: "devkit \<Rightarrow> byte list \<Rightarrow> error + string" where
  "calc_address D priv =
     (case derive_address D priv of Inl e \<Rightarrow> Inl e | Inr address_bytes \<Rightarrow> Inr (''0x'' @ hex address_bytes))"

text \<open>
  \<^verbatim>\<open>build_tx\<close>, lines 90 to 108: the best block is fetched, the block reference and the nonce
  are computed, and the body is the dictionary of the source.
\<close>

definition build_body ::
  "string \<Rightarrow> int \<Rightarrow> string option \<Rightarrow> int \<Rightarrow> string \<Rightarrow> int \<Rightarrow> string option \<Rightarrow> body io" where
  "build_body network chainTag' to val data gas' dependsOn' =
     bindE (best_block network) (\<lambda>blk.
     bindE calc_nonce (\<lambda>nonce'.
     retE \<lparr>chainTag = chainTag',
           blockRef = calc_blockRef blk,
           expiration = 32,
           clauses = [\<lparr>clause_to = to, clause_value = val, clause_data = data\<rparr>],
           gasPriceCoef = 0,
           gas = gas',
           dependsOn = dependsOn',
           nonce = nonce'\<rparr>))"

text \<open>\<^verbatim>\<open>build_tx\<close>, whole: the body is validated, signed with the key and encoded.\<close>

definition build_tx ::
  "devkit \<Rightarrow> string \<Rightarrow> string \<Rightarrow> int \<Rightarrow> string option \<Rightarrow> int \<Rightarrow> string \<Rightarrow> int \<Rightarrow> string option
     \<Rightarrow> string io" where
  "build_tx D priv network chainTag' to val data gas' dependsOn' =
     bindE (build_body network chainTag' to val data gas' dependsOn') (\<lambda>body'.
     bindE (liftE (Transaction D body')) (\<lambda>tx.
     bindE (liftE (fromhex priv)) (\<lambda>priv_key.
     bindE (liftE (sign_encode D tx priv_key)) (\<lambda>encoded.
     retE (''0x'' @ hex encoded)))))"

definition post_tx :: "string \<Rightarrow> string \<Rightarrow> string io" where
  "post_tx network raw =
     (let url = build_url network ''transactions''
      in bindE (post_transactions url raw) (\<lambda>r.
           if \<not> (status_code r = 200)
           then raiseE (Exception [S ''Creation error? HTTP: '', I (status_code r), S '' '', S (resp_text r)])
           else retE (json r)))"

definition tx_receipt :: "string \<Rightarrow> string \<Rightarrow> receipt option io" where
  "tx_receipt network tx_id =
     (let url = build_url network (''transactions/'' @ tx_id @ ''/receipt'')
      in bindE (get_receipt url) (\<lambda>r.
           if \<not> (status_code r = 200)
           then raiseE (Exception [S ''Creation error? HTTP: '', I (status_code r), S '' '', S (resp_text r)])
           else retE (json r)))"

text \<open>
  The loop of \<^verbatim>\<open>wait_for_receipt\<close>, \<^verbatim>\<open>for _ in range(rounds)\<close>: it leaves with the receipt as
  soon as one is there, sleeps three seconds otherwise, and ends with \<^verbatim>\<open>receipt = None\<close>
  when the rounds are used up.
\<close>

fun poll_loop :: "nat \<Rightarrow> string \<Rightarrow> string \<Rightarrow> receipt option io" where
  "poll_loop 0 network tx_id = retE None"
| "poll_loop (Suc rounds) network tx_id =
     bindE (tx_receipt network tx_id) (\<lambda>receipt'.
       case receipt' of
         Some r \<Rightarrow> retE (Some r)
       | None \<Rightarrow> bindE (sleep 3) (\<lambda>_. poll_loop rounds network tx_id))"

definition wait_for_receipt :: "string \<Rightarrow> string \<Rightarrow> int \<Rightarrow> receipt io" where
  "wait_for_receipt network tx_id wait_for =
     (let interval = 3;
          rounds = wait_for div interval
      in bindE (poll_loop (nat rounds) network tx_id) (\<lambda>receipt'.
           case receipt' of
             None \<Rightarrow> raiseE (Exception [S ''Cannot get receipt after '', I wait_for, S ''s, tx dropped?''])
           | Some r \<Rightarrow> retE r))"

text \<open>
  \<^verbatim>\<open>deploy\<close>, lines 182 to 186: the payload. \<^verbatim>\<open>not types\<close> holds for \<^verbatim>\<open>None\<close> and for the
  empty list, the first two cases; the bytecode is decoded before the arguments are encoded.
\<close>

definition deploy_data ::
  "devkit \<Rightarrow> contract_meta \<Rightarrow> string list option \<Rightarrow> string list option \<Rightarrow> error + string" where
  "deploy_data D contract_meta types params =
     (case (case types of
              None \<Rightarrow> get_bytecode contract_meta
            | Some [] \<Rightarrow> get_bytecode contract_meta
            | Some (t # ts) \<Rightarrow>
                (case get_bytecode contract_meta of
                   Inl e \<Rightarrow> Inl e
                 | Inr code \<Rightarrow>
                     (case build_params D (t # ts) params of
                        Inl e \<Rightarrow> Inl e
                      | Inr encoded \<Rightarrow> Inr (code @ encoded)))) of
        Inl e \<Rightarrow> Inl e
      | Inr data_bytes \<Rightarrow> Inr (''0x'' @ hex data_bytes))"

text \<open>\<^verbatim>\<open>deploy\<close>, lines 181 to 192: up to the receipt of the transaction.\<close>

definition deploy_receipt ::
  "devkit \<Rightarrow> string \<Rightarrow> int \<Rightarrow> contract_meta \<Rightarrow> string list option \<Rightarrow> string list option \<Rightarrow> string
     \<Rightarrow> string option \<Rightarrow> int \<Rightarrow> int \<Rightarrow> receipt io" where
  "deploy_receipt D network chainTag' contract_meta types params priv to val gas' =
     bindE (print [S ''Deploy contract: <'', S (contractName contract_meta), S ''>'']) (\<lambda>_.
     bindE (liftE (deploy_data D contract_meta types params)) (\<lambda>data.
     bindE (build_tx D priv network chainTag' to val data gas' None) (\<lambda>raw.
     bindE (post_tx network raw) (\<lambda>tx_id.
     bindE (print [S ''tx: '', S tx_id]) (\<lambda>_.
     wait_for_receipt network tx_id 20)))))"

text \<open>
  \<^verbatim>\<open>deploy\<close>, whole. \<^verbatim>\<open>addrs[0]\<close> on the empty list is the \<^verbatim>\<open>IndexError\<close> of the runtime.
\<close>

definition deploy ::
  "devkit \<Rightarrow> string \<Rightarrow> int \<Rightarrow> contract_meta \<Rightarrow> string list option \<Rightarrow> string list option \<Rightarrow> string
     \<Rightarrow> string option \<Rightarrow> int \<Rightarrow> int \<Rightarrow> string io" where
  "deploy D network chainTag' contract_meta types params priv to val gas' =
     bindE (deploy_receipt D network chainTag' contract_meta types params priv to val gas') (\<lambda>receipt'.
       if is_reverted receipt' then raiseE (Exception [S ''reverted''])
       else (case find_created_contracts receipt' of
               [] \<Rightarrow> raiseE IndexError
             | addr # _ \<Rightarrow> bindE (print [S ''Deployed on: '', S addr]) (\<lambda>_. retE addr)))"

text \<open>\<^verbatim>\<open>call_function\<close>, lines 204 to 215: up to the receipt of the transaction.\<close>

definition call_receipt ::
  "devkit \<Rightarrow> string \<Rightarrow> int \<Rightarrow> abi_entry \<Rightarrow> string list \<Rightarrow> string \<Rightarrow> string \<Rightarrow> int \<Rightarrow> int
     \<Rightarrow> (string \<times> receipt) io" where
  "call_receipt D network chainTag' abi_dict func_params priv to val gas' =
     bindE (liftE (abi_FUNCTION D abi_dict)) (\<lambda>f1.
     bindE (print [S ''Call contract: '', S to]) (\<lambda>_.
     bindE (case name f1 of None \<Rightarrow> raiseE KeyError | Some n \<Rightarrow> print [S ''function: '', S n]) (\<lambda>_.
     bindE (print [S ''params: '', L func_params]) (\<lambda>_.
     bindE (liftE (function_encode D f1 func_params)) (\<lambda>data.
     bindE (build_tx D priv network chainTag' (Some to) val data gas' None) (\<lambda>raw.
     bindE (post_tx network raw) (\<lambda>tx_id.
     bindE (print [S ''tx: '', S tx_id]) (\<lambda>_.
     bindE (wait_for_receipt network tx_id 20) (\<lambda>receipt'.
     retE (tx_id, receipt'))))))))))"

definition call_function ::
  "devkit \<Rightarrow> string \<Rightarrow> int \<Rightarrow> abi_entry \<Rightarrow> string list \<Rightarrow> string \<Rightarrow> string \<Rightarrow> int \<Rightarrow> int
     \<Rightarrow> string io" where
  "call_function D network chainTag' abi_dict func_params priv to val gas' =
     bindE (call_receipt D network chainTag' abi_dict func_params priv to val gas') (\<lambda>(tx_id, receipt').
       if is_reverted receipt' then raiseE (Exception [S ''reverted''])
       else retE tx_id)"

section \<open>The script: pre-flight and the four steps\<close>

definition argv_get :: "string list \<Rightarrow> nat \<Rightarrow> error + string" where
  "argv_get argv i = (if i < length argv then Inr (argv ! i) else Inl IndexError)"

text \<open>Lines 240 to 248: the diagnostics and the two assertions.\<close>

definition preflight :: "string \<Rightarrow> string \<Rightarrow> unit io" where
  "preflight NETWORK address =
     bindE (print [S ''Deployer Balance:'']) (\<lambda>_.
     bindE (get_account NETWORK address ''best'') (\<lambda>acc.
     bindE (liftE (int16 (balance acc))) (\<lambda>b.
     bindE (liftE (truediv b (10 ^ 18))) (\<lambda>vet.
     bindE (print [S ''VET:'', R vet]) (\<lambda>_.
     bindE (liftE (int16 (energy acc))) (\<lambda>e.
     bindE (liftE (truediv e (10 ^ 18))) (\<lambda>vtho.
     bindE (print [S ''VTHO:'', R vtho]) (\<lambda>_.
     bindE (print [S ''EOA:'', B (\<not> hasCode acc)]) (\<lambda>_.
     bindE (liftE (int16 (energy acc))) (\<lambda>e'.
     bindE (liftE (truediv e' (10 ^ 18))) (\<lambda>vtho'.
     if \<not> (14000 < vtho') then raiseE (AssertionError ''Insufficient VTHO'')
     else if \<not> (\<not> hasCode acc) then raiseE (AssertionError ''Only EOA accouts can deploy this'')
     else retE ())))))))))))"

text \<open>Lines 250 to 252: the wrapped base asset.\<close>

definition step_vvet :: "devkit \<Rightarrow> string \<Rightarrow> int \<Rightarrow> string \<Rightarrow> string io" where
  "step_vvet D NETWORK CHAIN_TAG private =
     bindE (read_json_file TARGETS_vvet) (\<lambda>vvet.
     deploy D NETWORK CHAIN_TAG vvet None None private None 0 3000000)"

text \<open>Lines 254 to 257: the factory, with the deployer as fee setter.\<close>

definition step_factory ::
  "devkit \<Rightarrow> string \<Rightarrow> int \<Rightarrow> string \<Rightarrow> string \<Rightarrow> (contract_meta \<times> string) io" where
  "step_factory D NETWORK CHAIN_TAG address private =
     bindE (read_json_file TARGETS_factory) (\<lambda>factory.
     bindE (deploy D NETWORK CHAIN_TAG factory (Some [''address'']) (Some [address]) private None 0 3000000)
       (\<lambda>factory_contract_addr. retE (factory, factory_contract_addr)))"

text \<open>Lines 259 to 261: the router, with the addresses of the factory and of the wrapper.\<close>

definition step_router :: "devkit \<Rightarrow> string \<Rightarrow> int \<Rightarrow> string \<Rightarrow> string \<Rightarrow> string \<Rightarrow> string io" where
  "step_router D NETWORK CHAIN_TAG private factory_contract_addr vvet_contract_addr =
     bindE (read_json_file TARGETS_router) (\<lambda>router.
     deploy D NETWORK CHAIN_TAG router (Some [''address'', ''address''])
       (Some [factory_contract_addr, vvet_contract_addr]) private None 0 5000000)"

text \<open>Lines 263 to 268: the pair of the wrapper and the energy token.\<close>

definition step_pair ::
  "devkit \<Rightarrow> string \<Rightarrow> int \<Rightarrow> string \<Rightarrow> contract_meta \<Rightarrow> string \<Rightarrow> string \<Rightarrow> string io" where
  "step_pair D NETWORK CHAIN_TAG private factory vvet_contract_addr factory_contract_addr =
     (case find_func_abi factory ''createPair'' of
        None \<Rightarrow> raiseE (Exception [S ''Cannot find createPair abi''])
      | Some createPair_abi \<Rightarrow>
          call_function D NETWORK CHAIN_TAG createPair_abi [vvet_contract_addr, VTHO_CONTRACT]
            private factory_contract_addr 0 2500000)"

text \<open>Lines 250 to 268: the four steps, each using the addresses of the steps before.\<close>

definition deployment :: "devkit \<Rightarrow> string \<Rightarrow> int \<Rightarrow> string \<Rightarrow> string \<Rightarrow> unit io" where
  "deployment D NETWORK CHAIN_TAG address private =
     bindE (step_vvet D NETWORK CHAIN_TAG private) (\<lambda>vvet_contract_addr.
     bindE (step_factory D NETWORK CHAIN_TAG address private) (\<lambda>(factory, factory_contract_addr).
     bindE (step_router D NETWORK CHAIN_TAG private factory_contract_addr vvet_contract_addr)
       (\<lambda>router_contract_addr.
     bindE (step_pair D NETWORK CHAIN_TAG private factory vvet_contract_addr factory_contract_addr)
       (\<lambda>_. retE ()))))"

text \<open>The script from its first line to its last.\<close>

definition main :: "devkit \<Rightarrow> string list \<Rightarrow> unit io" where
  "main D argv =
     bindE (liftE (argv_get argv 1)) (\<lambda>key.
     bindE (liftE (fromhex key)) (\<lambda>key_bytes.
     bindE (liftE (calc_address D key_bytes)) (\<lambda>address.
     bindE (liftE (argv_get argv 1)) (\<lambda>private.
     bindE (liftE (argv_get argv 2)) (\<lambda>NETWORK.
     bindE (liftE (argv_get argv 3)) (\<lambda>tag.
     bindE (liftE (int16 tag)) (\<lambda>CHAIN_TAG.
     bindE (preflight NETWORK address) (\<lambda>_.
     deployment D NETWORK CHAIN_TAG address private))))))))"

text \<open>
  The four steps cut after the first \<open>k\<close>: the same statements in the same order, with
  what follows step \<open>k\<close> left out. It is the yardstick for what a run has done when it
  stops at step \<open>k\<close>.
\<close>

definition deployment_upto :: "nat \<Rightarrow> devkit \<Rightarrow> string \<Rightarrow> int \<Rightarrow> string \<Rightarrow> string \<Rightarrow> unit io" where
  "deployment_upto k D NETWORK CHAIN_TAG address private =
     (if k = 0 then retE () else
      bindE (step_vvet D NETWORK CHAIN_TAG private) (\<lambda>vvet_contract_addr.
      if k = 1 then retE () else
      bindE (step_factory D NETWORK CHAIN_TAG address private) (\<lambda>(factory, factory_contract_addr).
      if k = 2 then retE () else
      bindE (step_router D NETWORK CHAIN_TAG private factory_contract_addr vvet_contract_addr)
        (\<lambda>router_contract_addr.
      if k = 3 then retE () else
      bindE (step_pair D NETWORK CHAIN_TAG private factory vvet_contract_addr factory_contract_addr)
        (\<lambda>_. retE ())))))"

section \<open>Vocabulary of the properties\<close>

text \<open>
  The \<open>j\<close>-th poll from now finds no receipt yet (status 200 and a null body), or finds the
  receipt \<open>r\<close>.
\<close>

definition absent :: "world \<Rightarrow> nat \<Rightarrow> bool" where
  "absent w j =
     (status_code (receipts w (n_receipts w + j)) = 200 \<and> json (receipts w (n_receipts w + j)) = None)"

definition present :: "world \<Rightarrow> nat \<Rightarrow> receipt \<Rightarrow> bool" where
  "present w k r =
     (status_code (receipts w (n_receipts w + k)) = 200 \<and> json (receipts w (n_receipts w + k)) = Some r)"

text \<open>The world after \<open>n\<close> polls for the receipt of \<open>tx_id\<close> and \<open>s\<close> sleeps of three seconds.\<close>

definition polled :: "world \<Rightarrow> string \<Rightarrow> string \<Rightarrow> nat \<Rightarrow> nat \<Rightarrow> world" where
  "polled w network tx_id n s =
     w\<lparr>n_receipts := n_receipts w + n,
       requests := requests w @ replicate n (GET (build_url network (''transactions/'' @ tx_id @ ''/receipt''))),
       slept := slept w + 3 * s\<rparr>"

text \<open>
  An error that a \<^verbatim>\<open>raise\<close> or an \<^verbatim>\<open>assert\<close> statement of the script produces, as opposed to
  one that the Python runtime or a library raises while the script runs.
\<close>

fun raised_by_script :: "error \<Rightarrow> bool" where
  "raised_by_script (Exception msg) = True"
| "raised_by_script (AssertionError msg) = True"
| "raised_by_script e = False"

text \<open>An output record that carries the address of a created contract.\<close>

definition created :: "tx_output \<Rightarrow> bool" where
  "created x = (case contractAddress x of None \<Rightarrow> False | Some addr \<Rightarrow> addr \<noteq> [])"

text \<open>The number that a list of bytes denotes, most significant byte first.\<close>

definition be_val :: "byte list \<Rightarrow> int" where
  "be_val bs = foldl (\<lambda>a b. 256 * a + uint b) 0 bs"

text \<open>
  A statement that fetches at most \<open>b\<close> blocks, which is how every transaction begins to be
  built, and submits at most \<open>p\<close> transactions, from whatever world it starts in.
\<close>

definition bounded :: "nat \<Rightarrow> nat \<Rightarrow> 'a io \<Rightarrow> bool" where
  "bounded b p m =
     (\<forall>w. n_blocks (snd (m w)) \<le> n_blocks w + b \<and> n_posts (snd (m w)) \<le> n_posts w + p)"










section \<open>Sample data\<close>

definition sample_key :: string where
  "sample_key = ''dce1443bd2ef0c2631adc1c67e5c93f13dc23a41c18b536effbbdcbcdb96fb65''"

definition sample_network :: string where
  "sample_network = ''http://localhost:8669''"

definition createPair_entry :: abi_entry where
  "createPair_entry = \<lparr>name = Some ''createPair'', entry_type = ''function'', inputs = [''address'', ''address'']\<rparr>"

definition sample_block :: block where
  "sample_block =
     \<lparr>block_id = ''0x00b1c2d3e4f5a6978877665544332211ffeeddccbbaa99887766554433221100'',
      block_number = 11649747\<rparr>"

definition sample_receipt :: receipt where
  "sample_receipt =
     \<lparr>reverted = False,
      outputs = [\<lparr>contractAddress = Some ''0x535b9a56c2f03a3658fc8787c44087574eb381fd''\<rparr>]\<rparr>"

definition sample_account :: account where
  "sample_account = \<lparr>balance = ''0x0'', energy = ''0x152d02c7e14af6800000'', hasCode = False\<rparr>"

text \<open>
  A node that answers every request with status 200: the sample block, the sample account,
  the transaction id \<^verbatim>\<open>0x7a\<close> and no receipt yet. No file is on disk, and the random source
  yields the bytes 0, 1, 2, ...
\<close>

definition quiet_world :: world where
  "quiet_world =
     \<lparr>blocks = (\<lambda>_. Response 200 [] sample_block),
      accounts = (\<lambda>_. Response 200 [] sample_account),
      posts = (\<lambda>_. Response 200 [] ''0x7a''),
      receipts = (\<lambda>_. Response 200 [] None),
      entropy = (\<lambda>i. of_nat i),
      files = (\<lambda>_. None),
      n_blocks = 0, n_accounts = 0, n_posts = 0, n_receipts = 0, n_entropy = 0,
      requests = [], slept = 0, stdout = []\<rparr>"

text \<open>The receipt appears at the third poll.\<close>

definition third_poll_world :: world where
  "third_poll_world =
     quiet_world\<lparr>receipts := (\<lambda>i. if i < 2 then Response 200 [] None
                                     else Response 200 [] (Some sample_receipt))\<rparr>"

text \<open>The receipt is there from the first poll on.\<close>

definition ready_world :: world where
  "ready_world = quiet_world\<lparr>receipts := (\<lambda>_. Response 200 [] (Some sample_receipt))\<rparr>"

definition duplicate_meta :: contract_meta where
  "duplicate_meta =
     \<lparr>contractName = ''UniswapV2Factory'',
      bytecode = ''6080'',
      abi = [\<lparr>name = None, entry_type = ''constructor'', inputs = [''address'']\<rparr>,
             \<lparr>name = Some ''createPair'', entry_type = ''function'', inputs = [''address'', ''address'']\<rparr>,
             \<lparr>name = Some ''createPair'', entry_type = ''function'', inputs = []\<rparr>]\<rparr>"

text \<open>
  Stand-ins for the functions of \<^verbatim>\<open>thor_devkit\<close>: they accept every input and return fixed
  bytes, so that a run of the script can be evaluated.
\<close>

definition stub_devkit :: devkit where
  "stub_devkit =
     \<lparr>derive_address = (\<lambda>priv. Inr (replicate 20 0x11)),
      encode_list = (\<lambda>types args. Inr (replicate (32 * length types) 0)),
      abi_FUNCTION = (\<lambda>abi_dict. Inr abi_dict),
      function_encode = (\<lambda>f1 func_params. Inr ''0xc9c65396''),
      Transaction = (\<lambda>body'. Inr body'),
      sign_encode = (\<lambda>tx priv_key. Inr [0xf8, 0x01])\<rparr>"

definition vvet_meta :: contract_meta where
  "vvet_meta = \<lparr>contractName = ''VVET9'', bytecode = ''60806040'', abi = []\<rparr>"

definition router_meta :: contract_meta where
  "router_meta = \<lparr>contractName = ''UniswapV2Router02'', bytecode = ''60c0'', abi = []\<rparr>"

definition sample_files :: "string \<Rightarrow> contract_meta option" where
  "sample_files path_like =
     (if path_like = TARGETS_vvet then Some vvet_meta
      else if path_like = TARGETS_factory then Some duplicate_meta
      else if path_like = TARGETS_router then Some router_meta
      else None)"

text \<open>A mined transaction that created no contract, and one that was reverted.\<close>

definition bare_receipt :: receipt where
  "bare_receipt = \<lparr>reverted = False, outputs = [\<lparr>contractAddress = None\<rparr>]\<rparr>"

definition reverted_receipt :: receipt where
  "reverted_receipt =
     \<lparr>reverted = True,
      outputs = [\<lparr>contractAddress = Some ''0x535b9a56c2f03a3658fc8787c44087574eb381fd''\<rparr>]\<rparr>"

definition bare_world :: world where
  "bare_world = quiet_world\<lparr>receipts := (\<lambda>_. Response 200 [] (Some bare_receipt))\<rparr>"

definition reverted_world :: world where
  "reverted_world = quiet_world\<lparr>receipts := (\<lambda>_. Response 200 [] (Some reverted_receipt))\<rparr>"

definition sample_address :: string where
  "sample_address = ''0x7567d83b7b8d80addcb281a71d54fc7b3364ffed''"



text \<open>An account that holds exactly 14000 units of energy, 14000 * 10^18 base units.\<close>

definition threshold_account :: account where
  "threshold_account = \<lparr>balance = ''0x0'', energy = ''0x2f6f10780d22cc00000'', hasCode = False\<rparr>"

definition threshold_world :: world where
  "threshold_world =
     quiet_world\<lparr>accounts := (\<lambda>_. Response 200 [] threshold_account), files := sample_files\<rparr>"

section \<open>Properties\<close>

subsection \<open>Hexadecimal strings\<close>

lemma hex_digit_not_space: "hex_val c \<noteq> None \<Longrightarrow> \<not> is_space c"
  by (auto simp: hex_val_def is_space_def Let_def split: if_splits)

lemma fromhex_take:
  "\<forall>c\<in>set h. hex_val c \<noteq> None \<Longrightarrow> fromhex h = Inr bs \<Longrightarrow>
     fromhex (take (2 * n) h) = Inr (take n bs)"
proof (induction n arbitrary: h bs)
  case 0
  then show ?case by simp
next
  case (Suc n)
  show ?case
  proof (cases h rule: fromhex.cases)
    case 1
    with Suc.prems show ?thesis by simp
  next
    case (2 c)
    with Suc.prems have "\<not> is_space c" by (simp add: hex_digit_not_space)
    with 2 Suc.prems show ?thesis by simp
  next
    case (3 c d ds)
    with Suc.prems have ns: "\<not> is_space c" by (simp add: hex_digit_not_space)
    from 3 Suc.prems obtain x y where xy: "hex_val c = Some x" "hex_val d = Some y" by auto
    from 3 Suc.prems ns xy obtain bs' where bs': "fromhex ds = Inr bs'" "bs = of_nat (16 * x + y) # bs'"
      by (auto split: sum.splits)
    from 3 Suc.prems have "\<forall>c\<in>set ds. hex_val c \<noteq> None" by simp
    from Suc.IH[OF this bs'(1)] have "fromhex (take (2 * n) ds) = Inr (take n bs')" .
    with 3 ns xy bs' show ?thesis by simp
  qed
qed

subsection \<open>The block reference\<close>

text \<open>
  Claim C6. For every block the block reference is a prefix of the block's identifier, of
  length 18 or of the whole identifier when that is shorter, and agrees with the identifier
  on the characters 0 to 17. For an identifier in the form \<^verbatim>\<open>0x\<close> followed by the hexadecimal
  digits of at least 8 bytes, it is \<^verbatim>\<open>0x\<close> and the first 16 digits, which decode to the first
  8 bytes of the identifier. Two blocks with the same identifier have the same reference:
  the reference is a function of the identifier alone.
\<close>

theorem calc_blockRef_is_prefix:
  "prefix (calc_blockRef blk) (block_id blk) \<and>
   length (calc_blockRef blk) = min 18 (length (block_id blk)) \<and>
   (\<forall>i<18. i < length (block_id blk) \<longrightarrow> calc_blockRef blk ! i = block_id blk ! i) \<and>
   (\<forall>h bs. block_id blk = ''0x'' @ h \<and> (\<forall>c\<in>set h. hex_val c \<noteq> None) \<and> fromhex h = Inr bs \<and>
            8 \<le> length bs \<longrightarrow>
      calc_blockRef blk = ''0x'' @ take 16 h \<and>
      fromhex (drop 2 (calc_blockRef blk)) = Inr (take 8 bs) \<and> length (take 8 bs) = 8) \<and>
   (\<forall>blk'. block_id blk' = block_id blk \<longrightarrow> calc_blockRef blk' = calc_blockRef blk)"
proof (intro conjI allI impI)
  show "prefix (calc_blockRef blk) (block_id blk)"
    by (simp add: calc_blockRef_def take_is_prefix)
  show "length (calc_blockRef blk) = min 18 (length (block_id blk))"
    by (simp add: calc_blockRef_def min.commute)
next
  fix i :: nat assume "i < 18" "i < length (block_id blk)"
  then show "calc_blockRef blk ! i = block_id blk ! i"
    by (simp add: calc_blockRef_def)
next
  fix h bs
  assume h: "block_id blk = ''0x'' @ h \<and> (\<forall>c\<in>set h. hex_val c \<noteq> None) \<and> fromhex h = Inr bs \<and> 8 \<le> length bs"
  then show "calc_blockRef blk = ''0x'' @ take 16 h"
    by (simp add: calc_blockRef_def)
  from h have "fromhex (take (2 * 8) h) = Inr (take 8 bs)"
    by (intro fromhex_take) auto
  with h show "fromhex (drop 2 (calc_blockRef blk)) = Inr (take 8 bs)"
    by (simp add: calc_blockRef_def)
  from h show "length (take 8 bs) = 8" by simp
next
  fix blk' :: block assume "block_id blk' = block_id blk"
  then show "calc_blockRef blk' = calc_blockRef blk"
    by (simp add: calc_blockRef_def)
qed

lemma sample_block_bytes:
  "fromhex ''00b1c2d3e4f5a6978877665544332211ffeeddccbbaa99887766554433221100'' =
     Inr [0x00, 0xb1, 0xc2, 0xd3, 0xe4, 0xf5, 0xa6, 0x97, 0x88, 0x77, 0x66, 0x55, 0x44, 0x33, 0x22, 0x11,
          0xff, 0xee, 0xdd, 0xcc, 0xbb, 0xaa, 0x99, 0x88, 0x77, 0x66, 0x55, 0x44, 0x33, 0x22, 0x11, 0x00]"
  by code_simp

lemma sample_block_digits:
  "\<forall>c\<in>set ''00b1c2d3e4f5a6978877665544332211ffeeddccbbaa99887766554433221100''. hex_val c \<noteq> None"
  by code_simp

theorem calc_blockRef_is_prefix_witness:
  "calc_blockRef sample_block = ''0x00b1c2d3e4f5a697'' \<and>
   fromhex (drop 2 (calc_blockRef sample_block)) = Inr [0x00, 0xb1, 0xc2, 0xd3, 0xe4, 0xf5, 0xa6, 0x97]"
proof -
  let ?h = "''00b1c2d3e4f5a6978877665544332211ffeeddccbbaa99887766554433221100''"
  let ?bs = "[0x00, 0xb1, 0xc2, 0xd3, 0xe4, 0xf5, 0xa6, 0x97, 0x88, 0x77, 0x66, 0x55, 0x44, 0x33, 0x22, 0x11,
          0xff, 0xee, 0xdd, 0xcc, 0xbb, 0xaa, 0x99, 0x88, 0x77, 0x66, 0x55, 0x44, 0x33, 0x22, 0x11, 0x00] :: byte list"
  have id: "block_id sample_block = ''0x'' @ ?h"
    by (simp add: sample_block_def)
  have len: "8 \<le> length ?bs" by simp
  have "\<forall>h bs. block_id sample_block = ''0x'' @ h \<and> (\<forall>c\<in>set h. hex_val c \<noteq> None) \<and> fromhex h = Inr bs \<and>
            8 \<le> length bs \<longrightarrow>
      calc_blockRef sample_block = ''0x'' @ take 16 h \<and>
      fromhex (drop 2 (calc_blockRef sample_block)) = Inr (take 8 bs) \<and> length (take 8 bs) = 8"
    using calc_blockRef_is_prefix [of sample_block] by (elim conjE)
  from this[rule_format, OF conjI[OF id conjI[OF sample_block_digits conjI[OF sample_block_bytes len]]]]
  have r: "calc_blockRef sample_block = ''0x'' @ take 16 ?h \<and>
      fromhex (drop 2 (calc_blockRef sample_block)) = Inr (take 8 ?bs) \<and> length (take 8 ?bs) = 8" .
  have A: "calc_blockRef sample_block = ''0x00b1c2d3e4f5a697''"
    using r[THEN conjunct1] by simp
  have B: "fromhex (drop 2 (calc_blockRef sample_block)) = Inr [0x00, 0xb1, 0xc2, 0xd3, 0xe4, 0xf5, 0xa6, 0x97]"
    using r[THEN conjunct2, THEN conjunct1] by simp
  show ?thesis using A B by (rule conjI)
qed

subsection \<open>The ABI lookup\<close>

lemma find_func_abi_loop_None:
  "find_func_abi_loop abis f = None \<longleftrightarrow> (\<forall>d\<in>set abis. name d \<noteq> Some f)"
  by (induction abis) auto


lemma find_func_abi_loop_Some:
  "find_func_abi_loop abis f = Some d \<longleftrightarrow>
     (\<exists>i<length abis. abis ! i = d \<and> name d = Some f \<and> (\<forall>j<i. name (abis ! j) \<noteq> Some f))"
proof (induction abis)
  case Nil
  then show ?case by simp
next
  case (Cons a abis)
  show ?case
  proof (cases "name a = Some f")
    case True
    have "(\<exists>i<length (a # abis). (a # abis) ! i = d \<and> name d = Some f \<and>
            (\<forall>j<i. name ((a # abis) ! j) \<noteq> Some f)) \<longleftrightarrow> a = d"
    proof
      assume "\<exists>i<length (a # abis). (a # abis) ! i = d \<and> name d = Some f \<and>
            (\<forall>j<i. name ((a # abis) ! j) \<noteq> Some f)"
      then obtain i where i: "(a # abis) ! i = d" "\<forall>j<i. name ((a # abis) ! j) \<noteq> Some f"
        by blast
      have "i = 0"
      proof (rule ccontr)
        assume "i \<noteq> 0"
        then have "0 < i" by simp
        with i(2) have "name ((a # abis) ! 0) \<noteq> Some f" by blast
        with True show False by simp
      qed
      with i(1) show "a = d" by simp
    next
      assume "a = d"
      with True have "(a # abis) ! 0 = d \<and> name d = Some f \<and> (\<forall>j<0. name ((a # abis) ! j) \<noteq> Some f)"
        by simp
      then show "\<exists>i<length (a # abis). (a # abis) ! i = d \<and> name d = Some f \<and>
            (\<forall>j<i. name ((a # abis) ! j) \<noteq> Some f)"
        by (intro exI[of _ 0]) simp
    qed
    with True show ?thesis by simp
  next
    case False
    have "(\<exists>i<length (a # abis). (a # abis) ! i = d \<and> name d = Some f \<and>
            (\<forall>j<i. name ((a # abis) ! j) \<noteq> Some f)) \<longleftrightarrow>
          (\<exists>i<length abis. abis ! i = d \<and> name d = Some f \<and> (\<forall>j<i. name (abis ! j) \<noteq> Some f))"
      (is "?L \<longleftrightarrow> ?R")
    proof
      assume ?L
      then obtain i where i: "i < length (a # abis)" "(a # abis) ! i = d" "name d = Some f"
        "\<forall>j<i. name ((a # abis) ! j) \<noteq> Some f"
        by blast
      from i(2,3) False have "i \<noteq> 0" by (cases i) auto
      then obtain k where k: "i = Suc k" by (cases i) auto
      have "\<forall>j<k. name (abis ! j) \<noteq> Some f"
      proof (intro allI impI)
        fix j assume "j < k"
        then have "Suc j < i" using k by simp
        with i(4) have "name ((a # abis) ! Suc j) \<noteq> Some f" by blast
        then show "name (abis ! j) \<noteq> Some f" by simp
      qed
      with i k show ?R by (intro exI[of _ k]) simp
    next
      assume ?R
      then obtain k where k: "k < length abis" "abis ! k = d" "name d = Some f"
        "\<forall>j<k. name (abis ! j) \<noteq> Some f"
        by blast
      have "\<forall>j<Suc k. name ((a # abis) ! j) \<noteq> Some f"
      proof (intro allI impI)
        fix j assume "j < Suc k"
        then show "name ((a # abis) ! j) \<noteq> Some f"
          using False k(4) by (cases j) auto
      qed
      with k show ?L by (intro exI[of _ "Suc k"]) simp
    qed
    with False Cons.IH show ?thesis by simp
  qed
qed

text \<open>
  Claim C8. The lookup returns \<open>None\<close> exactly when no entry of the artifact's \<open>abi\<close> list
  has the requested name, and returns the entry \<open>d\<close> exactly when \<open>d\<close> stands at an index
  \<open>i\<close> of the list, has the requested name, and no entry before \<open>i\<close> has it: the first
  match in list order wins.
\<close>

theorem find_func_abi_first_match:
  "(find_func_abi contract_meta func_name = None \<longleftrightarrow>
      (\<forall>d\<in>set (abi contract_meta). name d \<noteq> Some func_name)) \<and>
   (\<forall>d. find_func_abi contract_meta func_name = Some d \<longleftrightarrow>
      (\<exists>i<length (abi contract_meta). abi contract_meta ! i = d \<and> name d = Some func_name \<and>
         (\<forall>j<i. name (abi contract_meta ! j) \<noteq> Some func_name)))"
  unfolding find_func_abi_def
  by (intro conjI allI find_func_abi_loop_None find_func_abi_loop_Some)

theorem find_func_abi_first_match_witness:
  "find_func_abi duplicate_meta ''createPair'' =
     Some \<lparr>name = Some ''createPair'', entry_type = ''function'', inputs = [''address'', ''address'']\<rparr> \<and>
   find_func_abi duplicate_meta ''swap'' = None"
proof -
  let ?d = "\<lparr>name = Some ''createPair'', entry_type = ''function'', inputs = [''address'', ''address'']\<rparr>"
  have ex: "\<exists>i<length (abi duplicate_meta). abi duplicate_meta ! i = ?d \<and> name ?d = Some ''createPair'' \<and>
         (\<forall>j<i. name (abi duplicate_meta ! j) \<noteq> Some ''createPair'')"
    by (rule exI[of _ 1]) (simp add: duplicate_meta_def)
  have no: "\<forall>d\<in>set (abi duplicate_meta). name d \<noteq> Some ''swap''"
    by (simp add: duplicate_meta_def)
  note t1 = find_func_abi_first_match [of duplicate_meta "''createPair''"]
  note t2 = find_func_abi_first_match [of duplicate_meta "''swap''"]
  have A: "find_func_abi duplicate_meta ''createPair'' = Some ?d"
    using t1[THEN conjunct2, rule_format, THEN iffD2, OF ex] .
  have B: "find_func_abi duplicate_meta ''swap'' = None"
    using t2[THEN conjunct1, THEN iffD2, OF no] .
  show ?thesis using A B by (rule conjI)
qed

subsection \<open>Waiting for the receipt\<close>

lemma tx_receipt_ok:
  "status_code (receipts w (n_receipts w)) = 200 \<Longrightarrow>
   tx_receipt network tx_id w =
     (Inr (json (receipts w (n_receipts w))),
      w\<lparr>n_receipts := Suc (n_receipts w),
        requests := requests w @ [GET (build_url network (''transactions/'' @ tx_id @ ''/receipt''))]\<rparr>)"
  by (simp add: tx_receipt_def Let_def bindE_def get_receipt_def retE_def)

lemma poll_loop_absent:
  "\<forall>j<n. status_code (receipts w (n_receipts w + j)) = 200 \<and> json (receipts w (n_receipts w + j)) = None \<Longrightarrow>
   poll_loop n network tx_id w =
     (Inr None,
      w\<lparr>n_receipts := n_receipts w + n,
        requests := requests w @ replicate n (GET (build_url network (''transactions/'' @ tx_id @ ''/receipt''))),
        slept := slept w + 3 * n\<rparr>)"
proof (induction n arbitrary: w)
  case 0
  then show ?case by (simp add: retE_def)
next
  case (Suc n)
  let ?u = "GET (build_url network (''transactions/'' @ tx_id @ ''/receipt''))"
  let ?w1 = "w\<lparr>n_receipts := Suc (n_receipts w), requests := requests w @ [?u]\<rparr>"
  let ?w2 = "?w1\<lparr>slept := slept w + 3\<rparr>"
  from Suc.prems have h0: "status_code (receipts w (n_receipts w)) = 200" "json (receipts w (n_receipts w)) = None"
    by force+
  have "\<forall>j<n. status_code (receipts ?w2 (n_receipts ?w2 + j)) = 200 \<and> json (receipts ?w2 (n_receipts ?w2 + j)) = None"
  proof (intro allI impI)
    fix j assume "j < n"
    then have "Suc j < Suc n" by simp
    with Suc.prems have "status_code (receipts w (n_receipts w + Suc j)) = 200 \<and> json (receipts w (n_receipts w + Suc j)) = None"
      by blast
    then show "status_code (receipts ?w2 (n_receipts ?w2 + j)) = 200 \<and> json (receipts ?w2 (n_receipts ?w2 + j)) = None"
      by simp
  qed
  from Suc.IH[OF this] have ih: "poll_loop n network tx_id ?w2 =
     (Inr None, ?w2\<lparr>n_receipts := n_receipts ?w2 + n, requests := requests ?w2 @ replicate n ?u, slept := slept ?w2 + 3 * n\<rparr>)" .
  have "poll_loop (Suc n) network tx_id w = poll_loop n network tx_id ?w2"
    by (simp add: bindE_def tx_receipt_ok[OF h0(1)] h0(2) sleep_def)
  also note ih
  finally show ?case by (simp add: replicate_append_same)
qed


lemma poll_loop_timeout:
  "\<forall>j<n. absent w j \<Longrightarrow> poll_loop n network tx_id w = (Inr None, polled w network tx_id n n)"
  unfolding absent_def polled_def by (rule poll_loop_absent)

lemma absent_shift:
  "absent (w\<lparr>n_receipts := Suc (n_receipts w), requests := rq\<rparr>\<lparr>slept := sl\<rparr>) j = absent w (Suc j)"
  by (simp add: absent_def)

lemma present_shift:
  "present (w\<lparr>n_receipts := Suc (n_receipts w), requests := rq\<rparr>\<lparr>slept := sl\<rparr>) k r = present w (Suc k) r"
  by (simp add: present_def)

lemma poll_loop_found:
  "k < n \<Longrightarrow> \<forall>j<k. absent w j \<Longrightarrow> present w k r \<Longrightarrow>
   poll_loop n network tx_id w = (Inr (Some r), polled w network tx_id (Suc k) k)"
proof (induction n arbitrary: w k)
  case 0
  then show ?case by simp
next
  case (Suc n)
  let ?u = "GET (build_url network (''transactions/'' @ tx_id @ ''/receipt''))"
  show ?case
  proof (cases k)
    case 0
    with Suc.prems have h: "status_code (receipts w (n_receipts w)) = 200"
      "json (receipts w (n_receipts w)) = Some r"
      by (simp_all add: present_def)
    show ?thesis
      by (simp add: 0 bindE_def tx_receipt_ok[OF h(1)] h(2) retE_def polled_def)
  next
    case (Suc k')
    let ?w2 = "w\<lparr>n_receipts := Suc (n_receipts w), requests := requests w @ [?u]\<rparr>\<lparr>slept := slept w + 3\<rparr>"
    from Suc Suc.prems have "absent w 0" by simp
    then have h0: "status_code (receipts w (n_receipts w)) = 200" "json (receipts w (n_receipts w)) = None"
      by (simp_all add: absent_def)
    have a: "\<forall>j<k'. absent ?w2 j"
      using Suc Suc.prems(2) by (simp add: absent_shift)
    have p: "present ?w2 k' r"
      using Suc Suc.prems(3) by (simp add: present_shift)
    have lt: "k' < n" using Suc Suc.prems(1) by simp
    have "poll_loop (Suc n) network tx_id w = poll_loop n network tx_id ?w2"
      by (simp add: bindE_def tx_receipt_ok[OF h0(1)] h0(2) sleep_def)
    also have "\<dots> = (Inr (Some r), polled ?w2 network tx_id (Suc k') k')"
      by (rule Suc.IH[OF lt a p])
    also have "polled ?w2 network tx_id (Suc k') k' = polled w network tx_id (Suc k) k"
      by (simp add: polled_def Suc replicate_append_same)
    finally show ?thesis .
  qed
qed

text \<open>
  Claim C3. Let \<open>rounds = wait_for div 3\<close>. When the polls before the \<open>k\<close>-th find nothing
  and the \<open>k\<close>-th, with \<open>k < rounds\<close>, finds the receipt \<open>r\<close>, then \<open>wait_for_receipt\<close>
  returns \<open>r\<close> after \<open>k + 1\<close> polls and \<open>k\<close> sleeps. When all \<open>rounds\<close> polls find nothing,
  it raises the timeout exception after \<open>rounds\<close> polls and \<open>rounds\<close> sleeps, and does not
  return. For a window that is not negative, \<open>3 * rounds\<close> lies within one interval below
  the window. With the default window of 20 seconds there are 6 rounds.
\<close>

theorem wait_for_receipt_first_receipt:
  "(\<forall>k r. k < nat (wait_for div 3) \<and> (\<forall>j<k. absent w j) \<and> present w k r \<longrightarrow>
       wait_for_receipt network tx_id wait_for w = (Inr r, polled w network tx_id (Suc k) k)) \<and>
   ((\<forall>j<nat (wait_for div 3). absent w j) \<longrightarrow>
       wait_for_receipt network tx_id wait_for w =
         (Inl (Exception [S ''Cannot get receipt after '', I wait_for, S ''s, tx dropped?'']),
          polled w network tx_id (nat (wait_for div 3)) (nat (wait_for div 3)))) \<and>
   (0 \<le> wait_for \<longrightarrow>
       3 * int (nat (wait_for div 3)) \<le> wait_for \<and> wait_for < 3 * int (nat (wait_for div 3)) + 3)"
proof (intro conjI allI impI)
  fix k r
  assume h: "k < nat (wait_for div 3) \<and> (\<forall>j<k. absent w j) \<and> present w k r"
  then have "poll_loop (nat (wait_for div 3)) network tx_id w = (Inr (Some r), polled w network tx_id (Suc k) k)"
    by (intro poll_loop_found) auto
  then show "wait_for_receipt network tx_id wait_for w = (Inr r, polled w network tx_id (Suc k) k)"
    by (simp add: wait_for_receipt_def bindE_def retE_def)
next
  assume "\<forall>j<nat (wait_for div 3). absent w j"
  then have "poll_loop (nat (wait_for div 3)) network tx_id w =
      (Inr None, polled w network tx_id (nat (wait_for div 3)) (nat (wait_for div 3)))"
    by (rule poll_loop_timeout)
  then show "wait_for_receipt network tx_id wait_for w =
         (Inl (Exception [S ''Cannot get receipt after '', I wait_for, S ''s, tx dropped?'']),
          polled w network tx_id (nat (wait_for div 3)) (nat (wait_for div 3)))"
    by (simp add: wait_for_receipt_def bindE_def raiseE_def)
next
  assume "0 \<le> wait_for"
  then show "3 * int (nat (wait_for div 3)) \<le> wait_for" by (simp, presburger)
next
  assume "0 \<le> wait_for"
  then show "wait_for < 3 * int (nat (wait_for div 3)) + 3" by (simp, presburger)
qed

theorem wait_for_receipt_first_receipt_witness:
  "wait_for_receipt ''http://localhost:8669'' ''0x7a'' 20 third_poll_world =
     (Inr sample_receipt, polled third_poll_world ''http://localhost:8669'' ''0x7a'' 3 2) \<and>
   wait_for_receipt ''http://localhost:8669'' ''0x7a'' 20 quiet_world =
     (Inl (Exception [S ''Cannot get receipt after '', I 20, S ''s, tx dropped?'']),
      polled quiet_world ''http://localhost:8669'' ''0x7a'' 6 6)"
proof -
  have h1: "2 < nat (20 div 3) \<and> (\<forall>j<2. absent third_poll_world j) \<and> present third_poll_world 2 sample_receipt"
    by (simp add: absent_def present_def third_poll_world_def quiet_world_def)
  have h2: "\<forall>j<nat (20 div 3). absent quiet_world j"
    by (simp add: absent_def quiet_world_def)
  note t1 = wait_for_receipt_first_receipt [of 20 third_poll_world "''http://localhost:8669''" "''0x7a''"]
  note t2 = wait_for_receipt_first_receipt [of 20 quiet_world "''http://localhost:8669''" "''0x7a''"]
  have A: "wait_for_receipt ''http://localhost:8669'' ''0x7a'' 20 third_poll_world =
     (Inr sample_receipt, polled third_poll_world ''http://localhost:8669'' ''0x7a'' 3 2)"
    using t1[THEN conjunct1, rule_format, OF h1] by (simp add: numeral_3_eq_3)
  have B: "wait_for_receipt ''http://localhost:8669'' ''0x7a'' 20 quiet_world =
     (Inl (Exception [S ''Cannot get receipt after '', I 20, S ''s, tx dropped?'']),
      polled quiet_world ''http://localhost:8669'' ''0x7a'' 6 6)"
    using t2[THEN conjunct2, THEN conjunct1, THEN mp, OF h2] by simp
  show ?thesis using A B by (rule conjI)
qed

text \<open>
  Claim C9. For a window of 0, 1 or 2 seconds \<open>wait_for_receipt\<close> raises the timeout
  exception and leaves the world as it was: no receipt is queried and nothing is slept,
  whatever the node would have answered.
\<close>

theorem wait_for_receipt_short_window:
  "0 \<le> wait_for \<Longrightarrow> wait_for < 3 \<Longrightarrow>
   wait_for_receipt network tx_id wait_for w =
     (Inl (Exception [S ''Cannot get receipt after '', I wait_for, S ''s, tx dropped?'']), w)"
  by (simp add: wait_for_receipt_def bindE_def raiseE_def retE_def)

theorem wait_for_receipt_short_window_witness:
  "present ready_world 0 sample_receipt \<and>
   wait_for_receipt ''http://localhost:8669'' ''0x7a'' 2 ready_world =
     (Inl (Exception [S ''Cannot get receipt after '', I 2, S ''s, tx dropped?'']), ready_world)"
proof -
  have p: "present ready_world 0 sample_receipt"
    by (simp add: present_def ready_world_def quiet_world_def)
  have "(0::int) \<le> 2" "(2::int) < 3" by simp_all
  from wait_for_receipt_short_window [OF this, of "''http://localhost:8669''" "''0x7a''" ready_world] p
  show ?thesis by (intro conjI)
qed

subsection \<open>The outcome of a deployment and of a call\<close>

lemma find_created_loop_filter:
  "find_created_loop xs a = a @ map (\<lambda>x. the (contractAddress x)) (filter created xs)"
  by (induction xs arbitrary: a) (auto simp: created_def split: option.splits)

lemma filter_first:
  "i < length xs \<Longrightarrow> P (xs ! i) \<Longrightarrow> \<forall>j<i. \<not> P (xs ! j) \<Longrightarrow> \<exists>ys. filter P xs = xs ! i # ys"
proof (induction xs arbitrary: i)
  case Nil
  then show ?case by simp
next
  case (Cons x xs)
  show ?case
  proof (cases i)
    case 0
    with Cons.prems show ?thesis by simp
  next
    case (Suc k)
    with Cons.prems have nx: "\<not> P x" by force
    from Suc Cons.prems have "k < length xs" "P (xs ! k)" by simp_all
    moreover have "\<forall>j<k. \<not> P (xs ! j)"
    proof (intro allI impI)
      fix j assume "j < k"
      then have "Suc j < i" using Suc by simp
      with Cons.prems(3) have "\<not> P ((x # xs) ! Suc j)" by blast
      then show "\<not> P (xs ! j)" by simp
    qed
    ultimately obtain ys where "filter P xs = xs ! k # ys"
      using Cons.IH by blast
    with nx Suc show ?thesis by simp
  qed
qed

lemma find_created_contracts_Nil:
  "find_created_contracts r = [] \<longleftrightarrow> (\<forall>x\<in>set (outputs r). \<not> created x)"
  by (simp add: find_created_contracts_def find_created_loop_filter filter_empty_conv)

lemma find_created_contracts_first:
  assumes "i < length (outputs r)" "contractAddress (outputs r ! i) = Some addr" "addr \<noteq> []"
    "\<forall>j<i. \<not> created (outputs r ! j)"
  shows "\<exists>rest. find_created_contracts r = addr # rest"
proof -
  from assms(2,3) have "created (outputs r ! i)" by (simp add: created_def)
  from filter_first[of i "outputs r" created, OF assms(1) this assms(4)]
  obtain ys where "filter created (outputs r) = outputs r ! i # ys" by blast
  with assms(2) show ?thesis
    by (simp add: find_created_contracts_def find_created_loop_filter)
qed

lemma bindE_fst_Inr:
  "fst (m w) = Inr x \<Longrightarrow> bindE m f w = f x (snd (m w))"
  by (cases "m w") (simp add: bindE_def)

lemma deploy_after_receipt:
  "fst (deploy_receipt D network tag cm types params priv to val gs w) = Inr r \<Longrightarrow>
   deploy D network tag cm types params priv to val gs w =
     (if reverted r then (Inl (Exception [S ''reverted'']), snd (deploy_receipt D network tag cm types params priv to val gs w))
      else (case find_created_contracts r of
              [] \<Rightarrow> (Inl IndexError, snd (deploy_receipt D network tag cm types params priv to val gs w))
            | addr # _ \<Rightarrow>
                (Inr addr, (snd (deploy_receipt D network tag cm types params priv to val gs w))
                   \<lparr>stdout := stdout (snd (deploy_receipt D network tag cm types params priv to val gs w))
                                @ [ [S ''Deployed on: '', S addr] ]\<rparr>)))"
  unfolding deploy_def
  by (subst bindE_fst_Inr, assumption)
     (simp add: is_reverted_def raiseE_def retE_def bindE_def print_def split: list.splits)

lemma call_after_receipt:
  "fst (call_receipt D network tag abi_dict func_params priv target val gs w) = Inr (tx_id, r) \<Longrightarrow>
   call_function D network tag abi_dict func_params priv target val gs w =
     (if reverted r then Inl (Exception [S ''reverted'']) else Inr tx_id,
      snd (call_receipt D network tag abi_dict func_params priv target val gs w))"
  unfolding call_function_def
  by (subst bindE_fst_Inr, assumption) (simp add: is_reverted_def raiseE_def retE_def)

text \<open>
  Claim C2, as amended. When \<open>deploy\<close> has obtained a receipt that is not reverted: if no
  output record carries a created address, \<open>deploy\<close> ends with the \<open>IndexError\<close> that the
  runtime raises for \<^verbatim>\<open>addrs[0]\<close> on the empty list, in the world as it is after the receipt;
  if the output record at index \<open>i\<close> carries the address \<open>addr\<close> and no record before it
  carries one, \<open>deploy\<close> returns \<open>addr\<close>, the first created address in output-record order.
\<close>

theorem deploy_first_created_address:
  assumes "fst (deploy_receipt D network tag cm types params priv to val gs w) = Inr r"
    and "\<not> reverted r"
  shows "((\<forall>x\<in>set (outputs r). \<not> created x) \<longrightarrow>
            deploy D network tag cm types params priv to val gs w =
              (Inl IndexError, snd (deploy_receipt D network tag cm types params priv to val gs w))) \<and>
         (\<forall>i addr. i < length (outputs r) \<and> contractAddress (outputs r ! i) = Some addr \<and> addr \<noteq> [] \<and>
              (\<forall>j<i. \<not> created (outputs r ! j)) \<longrightarrow>
            fst (deploy D network tag cm types params priv to val gs w) = Inr addr)"
proof (intro conjI allI impI)
  assume "\<forall>x\<in>set (outputs r). \<not> created x"
  then have "find_created_contracts r = []" by (simp add: find_created_contracts_Nil)
  with assms show "deploy D network tag cm types params priv to val gs w =
              (Inl IndexError, snd (deploy_receipt D network tag cm types params priv to val gs w))"
    by (simp add: deploy_after_receipt)
next
  fix i addr
  assume "i < length (outputs r) \<and> contractAddress (outputs r ! i) = Some addr \<and> addr \<noteq> [] \<and>
              (\<forall>j<i. \<not> created (outputs r ! j))"
  then obtain rest where "find_created_contracts r = addr # rest"
    using find_created_contracts_first by blast
  with assms show "fst (deploy D network tag cm types params priv to val gs w) = Inr addr"
    by (simp add: deploy_after_receipt)
qed

theorem deploy_first_created_address_witness:
  "deploy stub_devkit sample_network 0xa4 vvet_meta None None sample_key None 0 3000000 bare_world =
     (Inl IndexError,
      snd (deploy_receipt stub_devkit sample_network 0xa4 vvet_meta None None sample_key None 0 3000000 bare_world)) \<and>
   fst (deploy stub_devkit sample_network 0xa4 vvet_meta None None sample_key None 0 3000000 ready_world) =
     Inr ''0x535b9a56c2f03a3658fc8787c44087574eb381fd''"
proof -
  have r1: "fst (deploy_receipt stub_devkit sample_network 0xa4 vvet_meta None None sample_key None 0 3000000
              bare_world) = Inr bare_receipt"
    by code_simp
  have n1: "\<not> reverted bare_receipt" by (simp add: bare_receipt_def)
  have c1: "\<forall>x\<in>set (outputs bare_receipt). \<not> created x"
    by (simp add: bare_receipt_def created_def)
  have r2: "fst (deploy_receipt stub_devkit sample_network 0xa4 vvet_meta None None sample_key None 0 3000000
              ready_world) = Inr sample_receipt"
    by code_simp
  have n2: "\<not> reverted sample_receipt" by (simp add: sample_receipt_def)
  have h2: "0 < length (outputs sample_receipt) \<and>
            contractAddress (outputs sample_receipt ! 0) = Some ''0x535b9a56c2f03a3658fc8787c44087574eb381fd'' \<and>
            ''0x535b9a56c2f03a3658fc8787c44087574eb381fd'' \<noteq> [] \<and>
            (\<forall>j<0. \<not> created (outputs sample_receipt ! j))"
    by (simp add: sample_receipt_def)
  note A = deploy_first_created_address [OF r1 n1, THEN conjunct1, THEN mp, OF c1]
  note B = deploy_first_created_address [OF r2 n2, THEN conjunct2, THEN spec, THEN spec, THEN mp, OF h2]
  show ?thesis using A B by (rule conjI)
qed

text \<open>
  Claim C2, as stated, fails: on a receipt that is not reverted and has no created address,
  \<open>deploy\<close> ends with \<open>IndexError\<close>, which no \<^verbatim>\<open>raise\<close> statement of the script produces.
\<close>

theorem deploy_missing_address_counterexample:
  "fst (deploy_receipt stub_devkit sample_network 0xa4 vvet_meta None None sample_key None 0 3000000 bare_world)
     = Inr bare_receipt \<and>
   \<not> reverted bare_receipt \<and>
   find_created_contracts bare_receipt = [] \<and>
   fst (deploy stub_devkit sample_network 0xa4 vvet_meta None None sample_key None 0 3000000 bare_world)
     = Inl IndexError \<and>
   \<not> raised_by_script IndexError"
  by code_simp

text \<open>
  Claim C4. When \<open>deploy\<close> or \<open>call_function\<close> has obtained a receipt whose \<open>reverted\<close> flag
  is set, it raises \<^verbatim>\<open>Exception('reverted')\<close> in the world as it is after the receipt, whatever
  the output records of the receipt are; when the flag is not set, \<open>deploy\<close> does not end
  with that exception and \<open>call_function\<close> returns the transaction id.
\<close>

theorem reverted_receipt_raises:
  "(fst (deploy_receipt D network tag cm types params priv to val gs w) = Inr r \<longrightarrow>
      (reverted r \<longrightarrow>
         deploy D network tag cm types params priv to val gs w =
           (Inl (Exception [S ''reverted'']), snd (deploy_receipt D network tag cm types params priv to val gs w))) \<and>
      (\<not> reverted r \<longrightarrow>
         fst (deploy D network tag cm types params priv to val gs w) \<noteq> Inl (Exception [S ''reverted'']))) \<and>
   (fst (call_receipt D network tag abi_dict func_params priv target val gs w) = Inr (tx_id, r) \<longrightarrow>
      (reverted r \<longrightarrow>
         call_function D network tag abi_dict func_params priv target val gs w =
           (Inl (Exception [S ''reverted'']), snd (call_receipt D network tag abi_dict func_params priv target val gs w))) \<and>
      (\<not> reverted r \<longrightarrow>
         call_function D network tag abi_dict func_params priv target val gs w =
           (Inr tx_id, snd (call_receipt D network tag abi_dict func_params priv target val gs w))))"
  by (auto simp: deploy_after_receipt call_after_receipt split: list.splits)

theorem reverted_receipt_raises_witness:
  "deploy stub_devkit sample_network 0xa4 vvet_meta None None sample_key None 0 3000000 reverted_world =
     (Inl (Exception [S ''reverted'']),
      snd (deploy_receipt stub_devkit sample_network 0xa4 vvet_meta None None sample_key None 0 3000000 reverted_world)) \<and>
   call_function stub_devkit sample_network 0xa4 createPair_entry [''0x01'', VTHO_CONTRACT] sample_key ''0x02'' 0 2500000
       reverted_world =
     (Inl (Exception [S ''reverted'']),
      snd (call_receipt stub_devkit sample_network 0xa4 createPair_entry [''0x01'', VTHO_CONTRACT] sample_key ''0x02'' 0
             2500000 reverted_world)) \<and>
   fst (deploy stub_devkit sample_network 0xa4 vvet_meta None None sample_key None 0 3000000 ready_world) \<noteq>
     Inl (Exception [S ''reverted''])"
proof -
  have r1: "fst (deploy_receipt stub_devkit sample_network 0xa4 vvet_meta None None sample_key None 0 3000000
              reverted_world) = Inr reverted_receipt"
    by code_simp
  have r2: "fst (call_receipt stub_devkit sample_network 0xa4 createPair_entry [''0x01'', VTHO_CONTRACT] sample_key
              ''0x02'' 0 2500000 reverted_world) = Inr (''0x7a'', reverted_receipt)"
    by code_simp
  have r3: "fst (deploy_receipt stub_devkit sample_network 0xa4 vvet_meta None None sample_key None 0 3000000
              ready_world) = Inr sample_receipt"
    by code_simp
  have rev: "reverted reverted_receipt" by (simp add: reverted_receipt_def)
  have nrev: "\<not> reverted sample_receipt" by (simp add: sample_receipt_def)
  note A = reverted_receipt_raises [THEN conjunct1, THEN mp, OF r1, THEN conjunct1, THEN mp, OF rev]
  note B = reverted_receipt_raises [THEN conjunct2, THEN mp, OF r2, THEN conjunct1, THEN mp, OF rev]
  note C = reverted_receipt_raises [THEN conjunct1, THEN mp, OF r3, THEN conjunct2, THEN mp, OF nrev]
  show ?thesis using A B C by (intro conjI)
qed

subsection \<open>The transaction body\<close>

lemma hex_digits_table:
  "\<forall>n\<in>set [0..<16]. hex_val (hex_char n) = Some n \<and> hex_char n \<noteq> CHR ''x'' \<and> hex_char n \<noteq> CHR ''X'' \<and>
      hex_char n \<noteq> CHR ''_'' \<and> hex_char n \<noteq> CHR ''+'' \<and> hex_char n \<noteq> CHR ''-'' \<and> \<not> is_space (hex_char n)"
  by code_simp

lemma hex_char_digit:
  assumes "n < 16"
  shows "hex_val (hex_char n) = Some n" "hex_char n \<noteq> CHR ''x''" "hex_char n \<noteq> CHR ''X''"
    "hex_char n \<noteq> CHR ''_''" "hex_char n \<noteq> CHR ''+''" "hex_char n \<noteq> CHR ''-''" "\<not> is_space (hex_char n)"
proof -
  from assms have "n \<in> set [0..<16]" by simp
  with hex_digits_table show "hex_val (hex_char n) = Some n" "hex_char n \<noteq> CHR ''x''" "hex_char n \<noteq> CHR ''X''"
    "hex_char n \<noteq> CHR ''_''" "hex_char n \<noteq> CHR ''+''" "hex_char n \<noteq> CHR ''-''" "\<not> is_space (hex_char n)"
    by blast+
qed

lemma hex_Cons: "hex (b # bs) = hex_char (unat b div 16) # hex_char (unat b mod 16) # hex bs"
  by (simp add: hex_def)

lemma unat_byte_split:
  fixes b :: byte
  shows "unat b div 16 < 16" "unat b mod 16 < 16" "16 * int (unat b div 16) + int (unat b mod 16) = uint b"
proof -
  have "unat b < 2 ^ LENGTH(8)" by (rule unsigned_less)
  then have "unat b < 256" by simp
  then show "unat b div 16 < 16" by simp
  show "unat b mod 16 < 16" by simp
  have "int (unat b div 16) = int (unat b) div 16" by (simp add: zdiv_int)
  moreover have "int (unat b mod 16) = int (unat b) mod 16" by (simp add: zmod_int)
  moreover have "int (unat b) = uint b" by simp
  ultimately show "16 * int (unat b div 16) + int (unat b mod 16) = uint b" by simp
qed

lemma digits_val_hex:
  "digits_val (hex bs) acc False = Some (foldl (\<lambda>a b. 256 * a + uint b) acc bs, [])"
proof (induction bs arbitrary: acc)
  case Nil
  then show ?case by (simp add: hex_def)
next
  case (Cons b bs)
  show ?case
    by (simp add: hex_Cons hex_char_digit unat_byte_split Cons.IH add.assoc)
qed

lemma foldl_be_bounds:
  "0 \<le> acc \<Longrightarrow> 0 \<le> foldl (\<lambda>a b. 256 * a + uint b) acc (bs :: byte list) \<and>
     foldl (\<lambda>a b. 256 * a + uint b) acc bs < (acc + 1) * 256 ^ length bs"
proof (induction bs arbitrary: acc)
  case Nil
  then show ?case by simp
next
  case (Cons b bs)
  have b0: "0 \<le> uint b" by simp
  have "uint b < 2 ^ LENGTH(8)" by (rule unsigned_less)
  then have b1: "uint b < 256" by simp
  from Cons.prems b0 have nn: "0 \<le> 256 * acc + uint b" by simp
  from Cons.IH[OF nn] have ih: "0 \<le> foldl (\<lambda>a b. 256 * a + uint b) (256 * acc + uint b) bs"
    "foldl (\<lambda>a b. 256 * a + uint b) (256 * acc + uint b) bs < (256 * acc + uint b + 1) * 256 ^ length bs"
    by simp_all
  note ih(2)
  also have "(256 * acc + uint b + 1) * 256 ^ length bs \<le> (256 * acc + 256) * 256 ^ length bs"
    using b1 by (intro mult_right_mono) simp_all
  also have "\<dots> = (acc + 1) * 256 ^ length (b # bs)" by (simp add: algebra_simps)
  finally have lt: "foldl (\<lambda>a b. 256 * a + uint b) (256 * acc + uint b) bs < (acc + 1) * 256 ^ length (b # bs)" .
  show ?case using ih(1) lt by simp
qed

lemma be_val_bounds: "0 \<le> be_val bs \<and> be_val bs < 256 ^ length bs"
  using foldl_be_bounds[of 0 bs] by (simp add: be_val_def)

lemma int16_hex: "bs \<noteq> [] \<Longrightarrow> int16 (hex bs) = Inr (be_val bs)"
proof -
  assume "bs \<noteq> []"
  then obtain b bs' where bs: "bs = b # bs'" by (cases bs) auto
  let ?h = "hex_char (unat b div 16)" and ?l = "hex_char (unat b mod 16)"
  have h: "\<not> is_space ?h" "?h \<noteq> CHR ''+''" "?h \<noteq> CHR ''-''" "hex_val ?h \<noteq> None"
    using hex_char_digit[of "unat b div 16"] unat_byte_split(1)[of b] by simp_all
  have l: "?l \<noteq> CHR ''x''" "?l \<noteq> CHR ''X''"
    using hex_char_digit[of "unat b mod 16"] by simp_all
  have hx: "hex bs = ?h # ?l # hex bs'" by (simp add: bs hex_Cons)
  have dv: "digits_val (?h # ?l # hex bs') 0 False = Some (be_val bs, [])"
    using digits_val_hex[of bs 0] by (simp add: hx be_val_def)
  show ?thesis
    unfolding int16_def hx
    by (simp add: h l dv del: digits_val.simps)
qed

lemma calc_nonce_eq:
  "calc_nonce w =
     (Inr (be_val (map (entropy w) [n_entropy w ..< n_entropy w + 8])), w\<lparr>n_entropy := n_entropy w + 8\<rparr>)"
proof -
  have "map (entropy w) [n_entropy w ..< n_entropy w + 8] \<noteq> []" by simp
  from int16_hex[OF this] show ?thesis
    by (simp add: calc_nonce_def bindE_def token_hex_def liftE_def)
qed

lemma best_block_ok:
  "status_code (blocks w (n_blocks w)) = 200 \<Longrightarrow>
   best_block network w =
     (Inr (json (blocks w (n_blocks w))),
      w\<lparr>n_blocks := Suc (n_blocks w), requests := requests w @ [GET (build_url network ''blocks/best'')]\<rparr>)"
  by (simp add: best_block_def get_block_def Let_def bindE_def get_blocks_def retE_def)

text \<open>
  Claim C7. When the node answers the request for the best block with status 200,
  \<open>build_tx\<close> builds the body with the caller's chain tag, the block reference of that block,
  expiration 32, the single clause of the caller's \<open>to\<close>, \<open>value\<close> and \<open>data\<close>,
  \<open>gasPriceCoef\<close> 0, the caller's gas and \<open>dependsOn\<close>, and as nonce the number denoted by
  the next 8 bytes of the random source, which is at least 0 and less than \<open>2^64\<close>; the call
  moves the position in the random source forward by 8, so that the next call reads the 8
  bytes after these; and this body is what \<open>build_tx\<close> validates, signs and encodes.
\<close>

theorem build_body_fields:
  assumes "status_code (blocks w (n_blocks w)) = 200"
  shows "fst (build_body network tag to val data gs dep w) =
           Inr \<lparr>chainTag = tag,
                blockRef = take 18 (block_id (json (blocks w (n_blocks w)))),
                expiration = 32,
                clauses = [\<lparr>clause_to = to, clause_value = val, clause_data = data\<rparr>],
                gasPriceCoef = 0,
                gas = gs,
                dependsOn = dep,
                nonce = be_val (map (entropy w) [n_entropy w ..< n_entropy w + 8])\<rparr> \<and>
         0 \<le> be_val (map (entropy w) [n_entropy w ..< n_entropy w + 8]) \<and>
         be_val (map (entropy w) [n_entropy w ..< n_entropy w + 8]) < 2 ^ 64 \<and>
         n_entropy (snd (build_body network tag to val data gs dep w)) = n_entropy w + 8 \<and>
         entropy (snd (build_body network tag to val data gs dep w)) = entropy w \<and>
         build_tx D priv network tag to val data gs dep w =
           bindE (liftE (Transaction D
                    \<lparr>chainTag = tag,
                     blockRef = take 18 (block_id (json (blocks w (n_blocks w)))),
                     expiration = 32,
                     clauses = [\<lparr>clause_to = to, clause_value = val, clause_data = data\<rparr>],
                     gasPriceCoef = 0,
                     gas = gs,
                     dependsOn = dep,
                     nonce = be_val (map (entropy w) [n_entropy w ..< n_entropy w + 8])\<rparr>)) (\<lambda>tx.
           bindE (liftE (fromhex priv)) (\<lambda>priv_key.
           bindE (liftE (sign_encode D tx priv_key)) (\<lambda>encoded.
           retE (''0x'' @ hex encoded))))
             (snd (build_body network tag to val data gs dep w))"
proof -
  let ?n = "be_val (map (entropy w) [n_entropy w ..< n_entropy w + 8])"
  let ?w' = "w\<lparr>n_blocks := Suc (n_blocks w), requests := requests w @ [GET (build_url network ''blocks/best'')],
                n_entropy := n_entropy w + 8\<rparr>"
  have bb: "build_body network tag to val data gs dep w =
     (Inr \<lparr>chainTag = tag,
                blockRef = take 18 (block_id (json (blocks w (n_blocks w)))),
                expiration = 32,
                clauses = [\<lparr>clause_to = to, clause_value = val, clause_data = data\<rparr>],
                gasPriceCoef = 0,
                gas = gs,
                dependsOn = dep,
                nonce = ?n\<rparr>, ?w')"
    by (simp add: build_body_def bindE_def best_block_ok[OF assms] calc_nonce_eq retE_def calc_blockRef_def)
  have bnd: "0 \<le> ?n \<and> ?n < 256 ^ 8"
    using be_val_bounds[of "map (entropy w) [n_entropy w ..< n_entropy w + 8]"] by simp
  have p: "(256::int) ^ 8 = 2 ^ 64" by simp
  have tx: "build_tx D priv network tag to val data gs dep w =
      bindE (build_body network tag to val data gs dep) (\<lambda>body'.
     bindE (liftE (Transaction D body')) (\<lambda>tx.
     bindE (liftE (fromhex priv)) (\<lambda>priv_key.
     bindE (liftE (sign_encode D tx priv_key)) (\<lambda>encoded.
     retE (''0x'' @ hex encoded))))) w"
    by (simp add: build_tx_def)
  show ?thesis
    apply (intro conjI)
    subgoal by (simp add: bb)
    subgoal using bnd by simp
    subgoal using bnd p by simp
    subgoal by (simp add: bb)
    subgoal by (simp add: bb)
    subgoal by (subst tx, subst bindE_def, simp add: bb)
    done
qed

theorem build_body_fields_witness:
  "fst (build_body sample_network 0xa4 None 0 ''0x60806040'' 3000000 None quiet_world) =
     Inr \<lparr>chainTag = 0xa4, blockRef = ''0x00b1c2d3e4f5a697'', expiration = 32,
          clauses = [\<lparr>clause_to = None, clause_value = 0, clause_data = ''0x60806040''\<rparr>],
          gasPriceCoef = 0, gas = 3000000, dependsOn = None, nonce = 283686952306183\<rparr> \<and>
   n_entropy (snd (build_body sample_network 0xa4 None 0 ''0x60806040'' 3000000 None quiet_world)) = 8"
proof -
  have ok: "status_code (blocks quiet_world (n_blocks quiet_world)) = 200"
    by (simp add: quiet_world_def)
  have nv: "be_val (map (entropy quiet_world) [n_entropy quiet_world ..< n_entropy quiet_world + 8]) = 283686952306183"
    by code_simp
  have br: "take 18 (block_id (json (blocks quiet_world (n_blocks quiet_world)))) = ''0x00b1c2d3e4f5a697''"
    by code_simp
  have ne: "n_entropy quiet_world + 8 = 8"
    by (simp add: quiet_world_def)
  note t = build_body_fields [OF ok, of sample_network "0xa4" None 0 "''0x60806040''" 3000000 None]
  have A: "fst (build_body sample_network 0xa4 None 0 ''0x60806040'' 3000000 None quiet_world) =
     Inr \<lparr>chainTag = 0xa4, blockRef = ''0x00b1c2d3e4f5a697'', expiration = 32,
          clauses = [\<lparr>clause_to = None, clause_value = 0, clause_data = ''0x60806040''\<rparr>],
          gasPriceCoef = 0, gas = 3000000, dependsOn = None, nonce = 283686952306183\<rparr>"
    using t[THEN conjunct1] unfolding nv br .
  have B: "n_entropy (snd (build_body sample_network 0xa4 None 0 ''0x60806040'' 3000000 None quiet_world)) = 8"
    using t[THEN conjunct2, THEN conjunct2, THEN conjunct2, THEN conjunct1] unfolding ne .
  show ?thesis using A B by (rule conjI)
qed

subsection \<open>The payload of a deployment\<close>











subsection \<open>The sequence of steps\<close>

lemma bounded_bindE:
  assumes "bounded b1 p1 m" and "\<And>x. bounded b2 p2 (f x)"
  shows "bounded (b1 + b2) (p1 + p2) (bindE m f)"
  unfolding bounded_def
proof (intro allI)
  fix w
  obtain r w1 where mw: "m w = (r, w1)" by (cases "m w")
  from assms(1) mw have m1: "n_blocks w1 \<le> n_blocks w + b1" "n_posts w1 \<le> n_posts w + p1"
    by (auto simp: bounded_def dest: spec[of _ w])
  show "n_blocks (snd (bindE m f w)) \<le> n_blocks w + (b1 + b2) \<and>
        n_posts (snd (bindE m f w)) \<le> n_posts w + (p1 + p2)"
  proof (cases r)
    case (Inl e)
    with mw m1 show ?thesis by (simp add: bindE_def)
  next
    case (Inr x)
    from assms(2)[of x] have "n_blocks (snd (f x w1)) \<le> n_blocks w1 + b2"
      "n_posts (snd (f x w1)) \<le> n_posts w1 + p2"
      by (auto simp: bounded_def)
    with Inr mw m1 show ?thesis by (simp add: bindE_def)
  qed
qed

lemma bounded_mono:
  assumes "bounded b p m" and "b \<le> b'" and "p \<le> p'"
  shows "bounded b' p' m"
  unfolding bounded_def
proof (intro allI conjI)
  fix w
  from assms(1) have "n_blocks (snd (m w)) \<le> n_blocks w + b" "n_posts (snd (m w)) \<le> n_posts w + p"
    by (simp_all add: bounded_def)
  with assms(2,3) show "n_blocks (snd (m w)) \<le> n_blocks w + b'" "n_posts (snd (m w)) \<le> n_posts w + p'"
    by simp_all
qed

lemma bounded_bindE_le:
  assumes "bounded b1 p1 m" and "\<And>x. bounded b2 p2 (f x)" and "b1 + b2 \<le> b" and "p1 + p2 \<le> p"
  shows "bounded b p (bindE m f)"
  using bounded_mono[OF bounded_bindE[OF assms(1,2)] assms(3,4)] .

lemma bounded_leaves:
  "bounded 0 0 (retE x)"
  "bounded 0 0 (raiseE e)"
  "bounded 0 0 (liftE r)"
  "bounded 0 0 (print line)"
  "bounded 0 0 (sleep secs)"
  "bounded 0 0 (token_hex n)"
  "bounded 0 0 (read_json_file path_like)"
  "bounded 0 0 (get_receipt url)"
  "bounded 0 0 (get_accounts url)"
  "bounded 1 0 (get_blocks url)"
  "bounded 0 1 (post_transactions url raw)"
  by (simp_all add: bounded_def retE_def raiseE_def liftE_def print_def sleep_def token_hex_def
        read_json_file_def get_receipt_def get_accounts_def get_blocks_def post_transactions_def
        split: option.splits)

lemma bounded_if:
  "bounded b p m1 \<Longrightarrow> bounded b p m2 \<Longrightarrow> bounded b p (if c then m1 else m2)"
  by simp

lemma bounded_zero: "bounded 0 0 m \<Longrightarrow> bounded b p m"
  by (erule bounded_mono) simp_all

lemma bounded_best_block: "bounded 1 0 (best_block network)"
  unfolding best_block_def get_block_def Let_def
  by (rule bounded_mono, rule bounded_bindE, rule bounded_leaves(10), rule bounded_if)
     (simp_all add: bounded_leaves)

lemma bounded_post_tx: "bounded 0 1 (post_tx network raw)"
  unfolding post_tx_def Let_def
  by (rule bounded_mono, rule bounded_bindE, rule bounded_leaves(11), rule bounded_if)
     (simp_all add: bounded_leaves)

lemma bounded_tx_receipt: "bounded 0 0 (tx_receipt network tx_id)"
  unfolding tx_receipt_def Let_def
  by (rule bounded_mono, rule bounded_bindE, rule bounded_leaves(8), rule bounded_if)
     (simp_all add: bounded_leaves)

lemma bounded_poll_loop: "bounded 0 0 (poll_loop n network tx_id)"
proof (induction n)
  case 0
  show ?case by (simp add: bounded_leaves)
next
  case (Suc n)
  have inner: "bounded 0 0 (case r of Some r' \<Rightarrow> retE (Some r')
               | None \<Rightarrow> bindE (sleep 3) (\<lambda>_. poll_loop n network tx_id))" for r
  proof (cases r)
    case None
    have "bounded (0 + 0) (0 + 0) (bindE (sleep 3) (\<lambda>_. poll_loop n network tx_id))"
      by (rule bounded_bindE) (simp_all add: bounded_leaves Suc.IH)
    with None show ?thesis by simp
  next
    case (Some a)
    then show ?thesis by (simp add: bounded_leaves)
  qed
  have "bounded (0 + 0) (0 + 0) (poll_loop (Suc n) network tx_id)"
    unfolding poll_loop.simps by (rule bounded_bindE) (simp_all add: bounded_tx_receipt inner)
  then show ?case by simp
qed

lemma bounded_wait_for_receipt: "bounded 0 0 (wait_for_receipt network tx_id wait_for)"
proof -
  have inner: "bounded 0 0 (case r of None \<Rightarrow> raiseE e | Some r' \<Rightarrow> retE r')" for r :: "receipt option" and e
    by (cases r) (simp_all add: bounded_leaves)
  have "bounded (0 + 0) (0 + 0) (wait_for_receipt network tx_id wait_for)"
    unfolding wait_for_receipt_def Let_def
    by (rule bounded_bindE) (simp_all add: bounded_poll_loop inner)
  then show ?thesis by simp
qed

lemma bounded_calc_nonce: "bounded 0 0 calc_nonce"
proof -
  have "bounded (0 + 0) (0 + 0) calc_nonce"
    unfolding calc_nonce_def by (rule bounded_bindE) (simp_all add: bounded_leaves)
  then show ?thesis by simp
qed

lemma bounded_build_body: "bounded 1 0 (build_body network tag to val data gs dep)"
proof -
  have "bounded (1 + (0 + 0)) (0 + (0 + 0)) (build_body network tag to val data gs dep)"
    unfolding build_body_def
    by (intro bounded_bindE bounded_best_block bounded_calc_nonce bounded_leaves)
  then show ?thesis by simp
qed

lemma bounded_build_tx: "bounded 1 0 (build_tx D priv network tag to val data gs dep)"
proof -
  have "bounded (1 + (0 + (0 + (0 + 0)))) (0 + (0 + (0 + (0 + 0)))) (build_tx D priv network tag to val data gs dep)"
    unfolding build_tx_def
    by (intro bounded_bindE bounded_build_body bounded_leaves)
  then show ?thesis by simp
qed

lemma bounded_deploy_receipt:
  "bounded 1 1 (deploy_receipt D network tag cm types params priv to val gs)"
proof -
  have "bounded (0 + (0 + (1 + (0 + (0 + 0))))) (0 + (0 + (0 + (1 + (0 + 0)))))
          (deploy_receipt D network tag cm types params priv to val gs)"
    unfolding deploy_receipt_def
    by (intro bounded_bindE bounded_build_tx bounded_post_tx bounded_wait_for_receipt bounded_leaves)
  then show ?thesis by simp
qed

lemma bounded_deploy: "bounded 1 1 (deploy D network tag cm types params priv to val gs)"
proof -
  have inner: "bounded 0 0 (if is_reverted r then raiseE e1
       else (case find_created_contracts r of
               [] \<Rightarrow> raiseE e2
             | addr # _ \<Rightarrow> bindE (print [S ''Deployed on: '', S addr]) (\<lambda>_. retE addr)))" for r e1 e2
  proof -
    have "bounded (0 + 0) (0 + 0) (bindE (print [S ''Deployed on: '', S addr]) (\<lambda>_. retE addr))" for addr
      by (intro bounded_bindE bounded_leaves)
    then show ?thesis by (simp add: bounded_leaves split: list.splits)
  qed
  show ?thesis
    unfolding deploy_def by (rule bounded_bindE_le[OF bounded_deploy_receipt inner]) simp_all
qed

lemma bounded_call_receipt:
  "bounded 1 1 (call_receipt D network tag abi_dict func_params priv target val gs)"
proof -
  have nm: "bounded 0 0 (case name f1 of None \<Rightarrow> raiseE KeyError | Some n \<Rightarrow> print [S ''function: '', S n])" for f1
    by (simp add: bounded_leaves split: option.splits)
  have "bounded (0 + (0 + (0 + (0 + (0 + (1 + (0 + (0 + (0 + 0))))))))) (0 + (0 + (0 + (0 + (0 + (0 + (1 + (0 + (0 + 0)))))))))
          (call_receipt D network tag abi_dict func_params priv target val gs)"
    unfolding call_receipt_def
    by (intro bounded_bindE bounded_build_tx bounded_post_tx bounded_wait_for_receipt nm bounded_leaves)
  then show ?thesis by simp
qed

lemma bounded_call_function:
  "bounded 1 1 (call_function D network tag abi_dict func_params priv target val gs)"
proof -
  have inner: "bounded 0 0 (case x of (tx_id, r) \<Rightarrow> if is_reverted r then raiseE e else retE tx_id)"
    for x :: "string \<times> receipt" and e
    by (cases x) (simp add: bounded_leaves)
  show ?thesis
    unfolding call_function_def by (rule bounded_bindE_le[OF bounded_call_receipt inner]) simp_all
qed

lemma bounded_step_vvet: "bounded 1 1 (step_vvet D N C p)"
proof -
  have "bounded (0 + 1) (0 + 1) (step_vvet D N C p)"
    unfolding step_vvet_def by (intro bounded_bindE bounded_leaves bounded_deploy)
  then show ?thesis by simp
qed

lemma bounded_step_factory: "bounded 1 1 (step_factory D N C a p)"
proof -
  have "bounded (0 + (1 + 0)) (0 + (1 + 0)) (step_factory D N C a p)"
    unfolding step_factory_def by (intro bounded_bindE bounded_leaves bounded_deploy)
  then show ?thesis by simp
qed

lemma bounded_step_router: "bounded 1 1 (step_router D N C p fa va)"
proof -
  have "bounded (0 + 1) (0 + 1) (step_router D N C p fa va)"
    unfolding step_router_def by (intro bounded_bindE bounded_leaves bounded_deploy)
  then show ?thesis by simp
qed

lemma bounded_step_pair: "bounded 1 1 (step_pair D N C p f va fa)"
proof (cases "find_func_abi f ''createPair''")
  case None
  have "bounded 1 1 (raiseE (Exception [S ''Cannot find createPair abi'']) :: string io)"
    by (rule bounded_zero) (rule bounded_leaves)
  with None show ?thesis by (simp only: step_pair_def option.case)
next
  case (Some createPair_abi)
  have "bounded 1 1 (call_function D N C createPair_abi [va, VTHO_CONTRACT] p fa 0 2500000)"
    by (rule bounded_call_function)
  with Some show ?thesis by (simp only: step_pair_def option.case)
qed

lemma bounded_deployment_upto: "k \<le> 4 \<Longrightarrow> bounded k k (deployment_upto k D N C a p)"
proof -
  assume "k \<le> 4"
  then consider "k = 0" | "k = 1" | "k = 2" | "k = 3" | "k = 4" by linarith
  then show ?thesis
  proof cases
    case 1
    then show ?thesis by (simp add: deployment_upto_def bounded_leaves)
  next
    case 2
    have "bounded (1 + 0) (1 + 0) (bindE (step_vvet D N C p) (\<lambda>_. retE ()))"
      by (intro bounded_bindE bounded_step_vvet bounded_leaves)
    then have "bounded 1 1 (bindE (step_vvet D N C p) (\<lambda>_. retE ()))"
      by (rule bounded_mono) simp_all
    with 2 show ?thesis by (simp add: deployment_upto_def)
  next
    case 3
    have "bounded (1 + (1 + 0)) (1 + (1 + 0))
            (bindE (step_vvet D N C p) (\<lambda>_. bindE (step_factory D N C a p) (\<lambda>fa. retE ())))"
      by (intro bounded_bindE bounded_step_vvet bounded_step_factory bounded_leaves)
    then have "bounded 2 2
            (bindE (step_vvet D N C p) (\<lambda>_. bindE (step_factory D N C a p) (\<lambda>fa. retE ())))"
      by (rule bounded_mono) simp_all
    with 3 show ?thesis by (simp add: deployment_upto_def case_prod_unfold)
  next
    case 4
    have "bounded (1 + (1 + (1 + 0))) (1 + (1 + (1 + 0)))
            (bindE (step_vvet D N C p) (\<lambda>va. bindE (step_factory D N C a p) (\<lambda>fa.
               bindE (step_router D N C p (snd fa) va) (\<lambda>_. retE ()))))"
      by (intro bounded_bindE bounded_step_vvet bounded_step_factory bounded_step_router bounded_leaves)
    then have "bounded 3 3
            (bindE (step_vvet D N C p) (\<lambda>va. bindE (step_factory D N C a p) (\<lambda>fa.
               bindE (step_router D N C p (snd fa) va) (\<lambda>_. retE ()))))"
      by (rule bounded_mono) simp_all
    with 4 show ?thesis by (simp add: deployment_upto_def case_prod_unfold)
  next
    case 5
    have "bounded (1 + (1 + (1 + (1 + 0)))) (1 + (1 + (1 + (1 + 0))))
            (bindE (step_vvet D N C p) (\<lambda>va. bindE (step_factory D N C a p) (\<lambda>fa.
               bindE (step_router D N C p (snd fa) va) (\<lambda>_.
               bindE (step_pair D N C p (fst fa) va (snd fa)) (\<lambda>_. retE ())))))"
      by (intro bounded_bindE bounded_step_vvet bounded_step_factory bounded_step_router
            bounded_step_pair bounded_leaves)
    then have "bounded 4 4
            (bindE (step_vvet D N C p) (\<lambda>va. bindE (step_factory D N C a p) (\<lambda>fa.
               bindE (step_router D N C p (snd fa) va) (\<lambda>_.
               bindE (step_pair D N C p (fst fa) va (snd fa)) (\<lambda>_. retE ())))))"
      by (rule bounded_mono) simp_all
    with 5 show ?thesis by (simp add: deployment_upto_def case_prod_unfold)
  qed
qed

lemma deployment_upto_4: "deployment_upto 4 D N C a p = deployment D N C a p"
  by (simp add: deployment_upto_def deployment_def)

lemma deployment_stops:
  assumes "k \<le> 4" and "fst (deployment_upto k D N C a p w) = Inl e"
  shows "deployment D N C a p w = deployment_upto k D N C a p w"
proof -
  from assms(1) consider "k = 0" | "k = 1" | "k = 2" | "k = 3" | "k = 4" by linarith
  then show ?thesis
  proof cases
    case 1
    with assms(2) show ?thesis by (simp add: deployment_upto_def retE_def)
  next
    case 2
    with assms(2) show ?thesis
      by (auto simp: deployment_upto_def deployment_def bindE_def retE_def split: prod.splits sum.splits)
  next
    case 3
    with assms(2) show ?thesis
      by (auto simp: deployment_upto_def deployment_def bindE_def retE_def split: prod.splits sum.splits)
  next
    case 4
    with assms(2) show ?thesis
      by (auto simp: deployment_upto_def deployment_def bindE_def retE_def split: prod.splits sum.splits)
  next
    case 5
    then show ?thesis by (simp add: deployment_upto_4)
  qed
qed

text \<open>
  An exception in one of the first \<open>k\<close> steps, whatever its cause, ends the sequence in
  the world of the sequence cut after step \<open>k\<close>, with at most \<open>k\<close> submissions.
\<close>

lemma deployment_stops_after_exception:
  assumes "k \<le> 4" and "fst (deployment_upto k D N C a p w) = Inl e"
  shows "deployment D N C a p w = deployment_upto k D N C a p w \<and>
         n_posts (snd (deployment D N C a p w)) \<le> n_posts w + k \<and>
         n_blocks (snd (deployment D N C a p w)) \<le> n_blocks w + k"
proof -
  have eq: "deployment D N C a p w = deployment_upto k D N C a p w"
    using assms by (rule deployment_stops)
  from bounded_deployment_upto[OF assms(1), of D N C a p]
  have "n_blocks (snd (deployment_upto k D N C a p w)) \<le> n_blocks w + k \<and>
        n_posts (snd (deployment_upto k D N C a p w)) \<le> n_posts w + k"
    unfolding bounded_def by blast
  with eq show ?thesis by simp
qed

subsection \<open>What the node answers and where the sequence stops\<close>


































subsection \<open>Pre-flight\<close>

text \<open>
  Claim C1, at the account that holds exactly the minimum. The energy
  \<^verbatim>\<open>0x2f6f10780d22cc00000\<close> is 14000 * 10^18 base units, the division by 10^18 gives the
  float 14000 exactly, and the account holds no code: the claim has pre-flight pass. The
  assertion of line 247 tests \<^verbatim>\<open>> 14000\<close>, so pre-flight raises \<^verbatim>\<open>AssertionError\<close> with
  the message \<^verbatim>\<open>Insufficient VTHO\<close>, the script ends with it, and no transaction is
  submitted. The comment above the assertion asks for at least 14k.
\<close>

theorem preflight_rejects_exact_minimum:
  "int16 (energy threshold_account) = Inr (14000 * 10 ^ 18) \<and>
   truediv (14000 * 10 ^ 18) (10 ^ 18) = Inr 14000 \<and>
   hasCode threshold_account = False \<and>
   fst (preflight sample_network sample_address threshold_world) = Inl (AssertionError ''Insufficient VTHO'') \<and>
   fst (main stub_devkit [''deploy.py'', sample_key, sample_network, ''0xa4''] threshold_world) =
     Inl (AssertionError ''Insufficient VTHO'') \<and>
   n_posts (snd (main stub_devkit [''deploy.py'', sample_key, sample_network, ''0xa4''] threshold_world)) = 0"
  by code_simp

text \<open>A run of the whole script in which every step succeeds submits four transactions.\<close>

lemma main_completes:
  "fst (main stub_devkit [''deploy.py'', sample_key, sample_network, ''0xa4'']
         (quiet_world\<lparr>receipts := (\<lambda>_. Response 200 [] (Some sample_receipt)), files := sample_files\<rparr>)) = Inr () \<and>
   n_posts (snd (main stub_devkit [''deploy.py'', sample_key, sample_network, ''0xa4'']
         (quiet_world\<lparr>receipts := (\<lambda>_. Response 200 [] (Some sample_receipt)), files := sample_files\<rparr>))) = 4"
  by code_simp

end
